theory Spec2Isabelle
  imports Complex_Main "HOL-Library.Monad_Syntax"
begin

section \<open>Python values\<close>

text \<open>
  The program is Python. Its strings are modelled as \<^typ>\<open>string\<close>, one \<^typ>\<open>char\<close> per
  code point (so only code points below 256 are represented), its unbounded integers as
  \<^typ>\<open>int\<close>, an \<open>Optional[T]\<close> as \<open>T option\<close>, and a raised exception as the left
  summand of a sum type.
\<close>

datatype exn =
    JSONDecodeError
  | ValueError
  | TypeError
  | AttributeError
  | OverflowError
  | RecursionError
  | ValidationError
  | ServiceError

text \<open>
  \<open>json.JSONDecodeError\<close> and the \<open>ValidationError\<close> of the validation library are
  subclasses of \<open>ValueError\<close>: a handler \<open>except ValueError\<close> catches the three of them,
  a handler \<open>except json.JSONDecodeError\<close> the first only.
\<close>

definition is_ValueError :: "exn \<Rightarrow> bool" where
  "is_ValueError e = (e = ValueError \<or> e = JSONDecodeError \<or> e = ValidationError)"

text \<open>
  A Python \<open>float\<close>: a finite value, one of the two infinities, or NaN. Rounding to
  binary64 is not modelled; the comparisons are those of IEEE 754, where every comparison
  with NaN is false.
\<close>

datatype pyfloat = Finite real | PosInf | NegInf | NaN

fun pf_less :: "pyfloat \<Rightarrow> pyfloat \<Rightarrow> bool" where
  "pf_less NaN _ = False"
| "pf_less _ NaN = False"
| "pf_less (Finite a) (Finite b) = (a < b)"
| "pf_less (Finite a) PosInf = True"
| "pf_less (Finite a) NegInf = False"
| "pf_less PosInf _ = False"
| "pf_less NegInf (Finite b) = True"
| "pf_less NegInf PosInf = True"
| "pf_less NegInf NegInf = False"

fun pf_le :: "pyfloat \<Rightarrow> pyfloat \<Rightarrow> bool" where
  "pf_le NaN _ = False"
| "pf_le _ NaN = False"
| "pf_le (Finite a) (Finite b) = (a \<le> b)"
| "pf_le (Finite a) PosInf = True"
| "pf_le (Finite a) NegInf = False"
| "pf_le PosInf PosInf = True"
| "pf_le PosInf _ = False"
| "pf_le NegInf _ = True"

text \<open>\<open>a > b\<close> and \<open>a >= b\<close> on floats.\<close>

definition pf_greater :: "pyfloat \<Rightarrow> pyfloat \<Rightarrow> bool" where
  "pf_greater a b = pf_less b a"

definition pf_ge :: "pyfloat \<Rightarrow> pyfloat \<Rightarrow> bool" where
  "pf_ge a b = pf_le b a"

text \<open>
  The values that \<open>json.loads\<close> can return, which are also the values the classifier
  passes on to the model constructors: \<open>None\<close>, \<open>bool\<close>, \<open>int\<close>, \<open>float\<close>, \<open>str\<close>,
  \<open>list\<close> and \<open>dict\<close> with string keys. A dict is the list of its items; a lookup takes
  the first item with the key.
\<close>

datatype pyval =
    PNone
  | PBool bool
  | PInt int
  | PFloat pyfloat
  | PStr string
  | PList "pyval list"
  | PDict "(string \<times> pyval) list"

text \<open>Truth value of an object, as \<open>if x\<close>, \<open>not x\<close> and \<open>x or y\<close> test it.\<close>

fun py_truthy :: "pyval \<Rightarrow> bool" where
  "py_truthy PNone = False"
| "py_truthy (PBool b) = b"
| "py_truthy (PInt i) = (i \<noteq> 0)"
| "py_truthy (PFloat (Finite r)) = (r \<noteq> 0)"
| "py_truthy (PFloat _) = True"
| "py_truthy (PStr s) = (s \<noteq> [])"
| "py_truthy (PList xs) = (xs \<noteq> [])"
| "py_truthy (PDict kvs) = (kvs \<noteq> [])"

text \<open>\<open>a or b\<close> returns the operand that decided it, not a \<open>bool\<close>.\<close>

definition py_or :: "pyval \<Rightarrow> pyval \<Rightarrow> pyval" where
  "py_or a b = (if py_truthy a then a else b)"

text \<open>
  \<open>d.get(k, default)\<close>. Only a dict has the method: on any other value the attribute
  lookup raises \<open>AttributeError\<close>.
\<close>

definition py_get :: "pyval \<Rightarrow> string \<Rightarrow> pyval \<Rightarrow> exn + pyval" where
  "py_get d k dflt =
     (case d of
        PDict kvs \<Rightarrow> Inr (case map_of kvs k of Some v \<Rightarrow> v | None \<Rightarrow> dflt)
      | _ \<Rightarrow> Inl AttributeError)"

text \<open>
  \<open>float(x)\<close>. An \<open>int\<close> converts unless it lies beyond the binary64 range; a \<open>str\<close> is
  parsed by the interpreter, whose parser \<open>float_of_str\<close> is a parameter (\<open>None\<close>: it
  raises \<open>ValueError\<close>); \<open>None\<close>, lists and dicts raise \<open>TypeError\<close>.
\<close>

definition py_float :: "(string \<Rightarrow> pyfloat option) \<Rightarrow> pyval \<Rightarrow> exn + pyfloat" where
  "py_float float_of_str x =
     (case x of
        PFloat f \<Rightarrow> Inr f
      | PInt i \<Rightarrow>
          (if \<bar>i\<bar> < 2 ^ 1024 - 2 ^ 970 then Inr (Finite (of_int i)) else Inl OverflowError)
      | PBool b \<Rightarrow> Inr (Finite (if b then 1 else 0))
      | PStr s \<Rightarrow> (case float_of_str s of Some f \<Rightarrow> Inr f | None \<Rightarrow> Inl ValueError)
      | _ \<Rightarrow> Inl TypeError)"

text \<open>\<open>xs[:n]\<close>: a negative bound counts from the end.\<close>

definition py_slice_to :: "int \<Rightarrow> 'a list \<Rightarrow> 'a list" where
  "py_slice_to n xs =
     (if 0 \<le> n then take (nat n) xs else take (length xs - nat (- n)) xs)"

text \<open>\<open>str(n)\<close> for a count \<open>n\<close>, and a decimal numeral padded with zeros to a width.\<close>

definition digit_char :: "nat \<Rightarrow> char" where
  "digit_char d = ''0123456789'' ! d"

fun str_nat :: "nat \<Rightarrow> string" where
  "str_nat n =
     (if n < 10 then [digit_char n]
      else str_nat (n div 10) @ [digit_char (n mod 10)])"

definition zero_padded :: "nat \<Rightarrow> nat \<Rightarrow> string" where
  "zero_padded w n = replicate (w - length (str_nat n)) (CHR ''0'') @ str_nat n"

text \<open>\<open>sep.join(parts)\<close>.\<close>

fun join :: "string \<Rightarrow> string list \<Rightarrow> string" where
  "join sep [] = []"
| "join sep [p] = p"
| "join sep (p # q # ps) = p @ sep @ join sep (q # ps)"

section \<open>Dates\<close>

text \<open>
  A \<open>datetime\<close> by its calendar fields; the time zone is left out. \<open>strftime\<close>
  interprets the directives the program uses, each as a zero-padded decimal numeral.
\<close>

record datetime =
  year :: nat
  month :: nat
  day :: nat
  hour :: nat
  minute :: nat
  second :: nat
  microsecond :: nat

definition strftime_directive :: "char \<Rightarrow> datetime \<Rightarrow> string" where
  "strftime_directive d dt =
     (if d = CHR ''Y'' then zero_padded 4 (year dt)
      else if d = CHR ''m'' then zero_padded 2 (month dt)
      else if d = CHR ''d'' then zero_padded 2 (day dt)
      else if d = CHR ''H'' then zero_padded 2 (hour dt)
      else if d = CHR ''M'' then zero_padded 2 (minute dt)
      else if d = CHR ''S'' then zero_padded 2 (second dt)
      else [CHR ''%'', d])"

fun strftime :: "string \<Rightarrow> datetime \<Rightarrow> string" where
  "strftime [] dt = []"
| "strftime [c] dt = [c]"
| "strftime (c # d # fmt) dt =
     (if c = CHR ''%'' then strftime_directive d dt @ strftime fmt dt
      else c # strftime (d # fmt) dt)"

section \<open>The data model (models.py)\<close>

datatype question_type = Binary | Numeric | Multiple_choice | Discrete

record QuestionMetadata =
  question_id :: int
  post_id :: int
  title :: string
  question_type :: question_type
  resolution_criteria :: string
  fine_print :: "string option"
  background_info :: string
  scheduled_close_time :: "datetime option"
  page_url :: string
  series_id :: "int option"
  last_fetched :: datetime
  unit_of_measure :: "string option"
  upper_bound :: "pyfloat option"
  lower_bound :: "pyfloat option"
  open_upper_bound :: "bool option"
  open_lower_bound :: "bool option"
  zero_point :: "pyfloat option"
  options :: "string list option"

record NewsArticle =
  url :: string
  title :: string
  summary :: string
  full_text :: "string option"
  published_date :: "datetime option"
  source :: string
  relevance_score :: "pyfloat option"

record NewsSnapshot =
  question_id :: int
  fetched_at :: datetime
  articles :: "NewsArticle list"
  search_query :: string
  snapshot_id :: string

text \<open>
  The constructor \<open>NewsSnapshot(question_id=, fetched_at=, articles=, search_query=,
  snapshot_id=)\<close> followed by \<open>model_post_init\<close>: an empty \<open>snapshot_id\<close> (the default)
  is replaced by the formatted fetch time.
\<close>

definition NewsSnapshot_init ::
  "int \<Rightarrow> datetime \<Rightarrow> NewsArticle list \<Rightarrow> string \<Rightarrow> string \<Rightarrow> NewsSnapshot" where
  "NewsSnapshot_init qid fetched arts query sid =
     \<lparr>NewsSnapshot.question_id = qid, fetched_at = fetched, articles = arts,
      search_query = query,
      snapshot_id = (if sid = [] then strftime ''%Y-%m-%dT%H-%M-%S'' fetched else sid)\<rparr>"

record ChangeReport =
  question_id :: int
  detected_at :: datetime
  previous_snapshot_id :: string
  current_snapshot_id :: string
  change_summary :: string
  significance_score :: pyfloat
  is_significant :: bool
  new_articles :: "NewsArticle list"

record NewsUpdate =
  question :: QuestionMetadata
  news_snapshot :: NewsSnapshot
  change_report :: "ChangeReport option"

section \<open>The collaborators outside the program\<close>

text \<open>
  What the program calls and does not define is a parameter of the model:
  \<^item> \<open>json_loads\<close> is \<open>json.loads\<close>: it returns a value or raises, \<open>JSONDecodeError\<close> on a
    text that is not JSON, and whatever else the interpreter raises while it parses
    (\<open>RecursionError\<close> on a text nested too deeply, a plain \<open>ValueError\<close> on an integer
    with too many digits);
  \<^item> \<open>float_of_str\<close> is \<open>float\<close> on a string; \<open>None\<close> stands for \<open>ValueError\<close>;
  \<^item> \<open>int_of_str\<close> is the reading of an integer from a string by the validation library;
  \<^item> \<open>dump_datetime\<close> is the JSON value that the validation library writes for a
    \<open>datetime\<close> (an ISO 8601 string), \<open>validate_datetime\<close> the \<open>datetime\<close> it reads from a
    JSON value, \<open>None\<close> when it rejects the value;
  \<^item> \<open>chat_completions_create model prompt\<close> is the request to the text-generation
    service: it fails, or it yields the \<open>content\<close> of the first choice, which may be \<open>None\<close>;
  \<^item> \<open>fetch_news_for_question question since_date\<close> is the retrieval of articles, whose result
    the search service decides;
  \<^item> \<open>utc_now\<close> is the clock.
\<close>

record externals =
  json_loads :: "string \<Rightarrow> exn + pyval"
  float_of_str :: "string \<Rightarrow> pyfloat option"
  int_of_str :: "string \<Rightarrow> int option"
  dump_datetime :: "datetime \<Rightarrow> pyval"
  validate_datetime :: "pyval \<Rightarrow> datetime option"
  chat_completions_create :: "string \<Rightarrow> string \<Rightarrow> exn + string option"
  fetch_news_for_question :: "QuestionMetadata \<Rightarrow> datetime option \<Rightarrow> exn + NewsSnapshot"
  utc_now :: datetime

section \<open>Construction and JSON form of the models\<close>

subsection \<open>Field validation\<close>

text \<open>
  The models are pydantic models, and a constructor validates each argument against the
  declared type of its field, in pydantic's default (lax) mode. A field declared \<open>str\<close>
  takes a \<open>str\<close> and nothing else among the values of \<^typ>\<open>pyval\<close>; in particular it
  rejects \<open>None\<close>.
\<close>

definition validate_str :: "pyval \<Rightarrow> string option" where
  "validate_str v = (case v of PStr s \<Rightarrow> Some s | _ \<Rightarrow> None)"

text \<open>
  A field declared \<open>bool\<close> takes a \<open>bool\<close>, the integers 0 and 1, the floats 0.0 and 1.0,
  and the strings that spell a truth value (compared without regard to ASCII case).
\<close>

definition ascii_lower :: "char \<Rightarrow> char" where
  "ascii_lower c =
     (case map_of (zip ''ABCDEFGHIJKLMNOPQRSTUVWXYZ'' ''abcdefghijklmnopqrstuvwxyz'') c of
        Some l \<Rightarrow> l
      | None \<Rightarrow> c)"

definition str_as_bool :: "string \<Rightarrow> bool option" where
  "str_as_bool s =
     (let l = map ascii_lower s in
      if s = ''0'' \<or> l \<in> set [''f'', ''n'', ''no'', ''off'', ''false''] then Some False
      else if s = ''1'' \<or> l \<in> set [''t'', ''y'', ''on'', ''yes'', ''true''] then Some True
      else None)"

definition validate_bool :: "pyval \<Rightarrow> bool option" where
  "validate_bool v =
     (case v of
        PBool b \<Rightarrow> Some b
      | PInt i \<Rightarrow> (if i = 0 then Some False else if i = 1 then Some True else None)
      | PFloat f \<Rightarrow>
          (case f of
             Finite r \<Rightarrow> (if r = 0 then Some False else if r = 1 then Some True else None)
           | _ \<Rightarrow> None)
      | PStr s \<Rightarrow> str_as_bool s
      | _ \<Rightarrow> None)"

text \<open>\<open>significance_score: float = Field(ge=0.0, le=1.0)\<close>, given a float.\<close>

definition validate_score :: "pyfloat \<Rightarrow> pyfloat option" where
  "validate_score f =
     (if pf_ge f (Finite 0) \<and> pf_le f (Finite 1) then Some f else None)"

text \<open>
  The constructor \<open>ChangeReport(...)\<close>. The arguments that the program always passes with
  the declared type (an \<open>int\<close>, a \<open>datetime\<close>, the \<open>snapshot_id\<close> of a snapshot, a float, a
  list of articles) have that type here; the three that it passes as whatever came out of a
  lookup or was written as \<open>None\<close> are \<^typ>\<open>pyval\<close>s. A rejected field raises
  \<open>ValidationError\<close>.
\<close>

definition ChangeReport_init ::
  "int \<Rightarrow> datetime \<Rightarrow> pyval \<Rightarrow> string \<Rightarrow> pyval \<Rightarrow> pyfloat \<Rightarrow> pyval \<Rightarrow> NewsArticle list
     \<Rightarrow> exn + ChangeReport" where
  "ChangeReport_init qid detected prev_id cur_id summ score flag arts =
     (case (validate_str prev_id, validate_str summ, validate_score score, validate_bool flag) of
        (Some p, Some s, Some f, Some b) \<Rightarrow>
          Inr \<lparr>ChangeReport.question_id = qid, detected_at = detected,
               previous_snapshot_id = p, current_snapshot_id = cur_id,
               change_summary = s, significance_score = f, is_significant = b,
               new_articles = arts\<rparr>
      | _ \<Rightarrow> Inl ValidationError)"

subsection \<open>The JSON form of the models\<close>

text \<open>
  \<open>model_dump_json\<close> writes a model as a JSON object of its fields, in the order of their
  declaration; \<open>model_validate\<close> reads a model from such an object, validating every field
  against its declared type, taking the default of a field that is absent, and ignoring
  keys that are no fields. Both are given here on the JSON document, a \<^typ>\<open>pyval\<close>; the
  text of the document is not modelled. A non-finite float is written as \<open>null\<close>.
\<close>

definition dump_optional :: "('a \<Rightarrow> pyval) \<Rightarrow> 'a option \<Rightarrow> pyval" where
  "dump_optional dump x = (case x of None \<Rightarrow> PNone | Some y \<Rightarrow> dump y)"

definition dump_float :: "pyfloat \<Rightarrow> pyval" where
  "dump_float f = (case f of Finite r \<Rightarrow> PFloat (Finite r) | _ \<Rightarrow> PNone)"

definition dump_question_type :: "question_type \<Rightarrow> pyval" where
  "dump_question_type t =
     (case t of
        Binary \<Rightarrow> PStr ''binary''
      | Numeric \<Rightarrow> PStr ''numeric''
      | Multiple_choice \<Rightarrow> PStr ''multiple_choice''
      | Discrete \<Rightarrow> PStr ''discrete'')"

definition QuestionMetadata_dump :: "externals \<Rightarrow> QuestionMetadata \<Rightarrow> pyval" where
  "QuestionMetadata_dump ext q =
     PDict [(''question_id'', PInt (QuestionMetadata.question_id q)),
            (''post_id'', PInt (post_id q)),
            (''title'', PStr (QuestionMetadata.title q)),
            (''question_type'', dump_question_type (question_type q)),
            (''resolution_criteria'', PStr (resolution_criteria q)),
            (''fine_print'', dump_optional PStr (fine_print q)),
            (''background_info'', PStr (background_info q)),
            (''scheduled_close_time'',
               dump_optional (dump_datetime ext) (scheduled_close_time q)),
            (''page_url'', PStr (page_url q)),
            (''series_id'', dump_optional PInt (series_id q)),
            (''last_fetched'', dump_datetime ext (last_fetched q)),
            (''unit_of_measure'', dump_optional PStr (unit_of_measure q)),
            (''upper_bound'', dump_optional dump_float (upper_bound q)),
            (''lower_bound'', dump_optional dump_float (lower_bound q)),
            (''open_upper_bound'', dump_optional PBool (open_upper_bound q)),
            (''open_lower_bound'', dump_optional PBool (open_lower_bound q)),
            (''zero_point'', dump_optional dump_float (zero_point q)),
            (''options'', dump_optional (\<lambda>os. PList (map PStr os)) (options q))]"

definition NewsArticle_dump :: "externals \<Rightarrow> NewsArticle \<Rightarrow> pyval" where
  "NewsArticle_dump ext a =
     PDict [(''url'', PStr (url a)),
            (''title'', PStr (NewsArticle.title a)),
            (''summary'', PStr (summary a)),
            (''full_text'', dump_optional PStr (full_text a)),
            (''published_date'', dump_optional (dump_datetime ext) (published_date a)),
            (''source'', PStr (source a)),
            (''relevance_score'', dump_optional dump_float (relevance_score a))]"

definition NewsSnapshot_dump :: "externals \<Rightarrow> NewsSnapshot \<Rightarrow> pyval" where
  "NewsSnapshot_dump ext s =
     PDict [(''question_id'', PInt (NewsSnapshot.question_id s)),
            (''fetched_at'', dump_datetime ext (fetched_at s)),
            (''articles'', PList (map (NewsArticle_dump ext) (articles s))),
            (''search_query'', PStr (search_query s)),
            (''snapshot_id'', PStr (snapshot_id s))]"

text \<open>
  A field declared \<open>int\<close> takes an \<open>int\<close>, a \<open>bool\<close>, a float without fractional part and
  a string that spells an integer; a field declared \<open>float\<close> takes what \<open>float\<close> takes.
\<close>

definition validate_int :: "(string \<Rightarrow> int option) \<Rightarrow> pyval \<Rightarrow> int option" where
  "validate_int of_str v =
     (case v of
        PInt i \<Rightarrow> Some i
      | PBool b \<Rightarrow> Some (if b then 1 else 0)
      | PFloat f \<Rightarrow>
          (case f of
             Finite r \<Rightarrow> (if r = of_int \<lfloor>r\<rfloor> then Some \<lfloor>r\<rfloor> else None)
           | _ \<Rightarrow> None)
      | PStr s \<Rightarrow> of_str s
      | _ \<Rightarrow> None)"

definition validate_float :: "(string \<Rightarrow> pyfloat option) \<Rightarrow> pyval \<Rightarrow> pyfloat option" where
  "validate_float of_str v = (case py_float of_str v of Inr f \<Rightarrow> Some f | Inl e \<Rightarrow> None)"

definition validate_list :: "(pyval \<Rightarrow> 'a option) \<Rightarrow> pyval \<Rightarrow> 'a list option" where
  "validate_list validate v = (case v of PList xs \<Rightarrow> those (map validate xs) | _ \<Rightarrow> None)"

text \<open>
  A field without default must be present; a field \<open>Optional[T] = None\<close> may be absent or
  \<open>null\<close>. \<open>None\<close> as result is the rejection.
\<close>

definition required_field ::
  "(pyval \<Rightarrow> 'a option) \<Rightarrow> (string \<times> pyval) list \<Rightarrow> string \<Rightarrow> 'a option" where
  "required_field validate kvs k =
     (case map_of kvs k of None \<Rightarrow> None | Some v \<Rightarrow> validate v)"

definition optional_field ::
  "(pyval \<Rightarrow> 'a option) \<Rightarrow> (string \<times> pyval) list \<Rightarrow> string \<Rightarrow> 'a option option" where
  "optional_field validate kvs k =
     (case map_of kvs k of
        None \<Rightarrow> Some None
      | Some v \<Rightarrow> (if v = PNone then Some None else map_option Some (validate v)))"

definition NewsArticle_validate :: "externals \<Rightarrow> pyval \<Rightarrow> NewsArticle option" where
  "NewsArticle_validate ext v =
     (case v of
        PDict kvs \<Rightarrow>
          do {
            u \<leftarrow> required_field validate_str kvs ''url'';
            t \<leftarrow> required_field validate_str kvs ''title'';
            s \<leftarrow> required_field validate_str kvs ''summary'';
            ft \<leftarrow> optional_field validate_str kvs ''full_text'';
            pd \<leftarrow> optional_field (validate_datetime ext) kvs ''published_date'';
            src \<leftarrow> required_field validate_str kvs ''source'';
            rs \<leftarrow> optional_field (validate_float (float_of_str ext)) kvs ''relevance_score'';
            Some \<lparr>url = u, title = t, summary = s, full_text = ft, published_date = pd,
                  source = src, relevance_score = rs\<rparr>
          }
      | _ \<Rightarrow> None)"

text \<open>
  \<open>NewsSnapshot.model_validate(data)\<close>: the fields, then \<open>model_post_init\<close>. The field
  \<open>snapshot_id\<close> has the default \<open>""\<close>.
\<close>

definition NewsSnapshot_validate :: "externals \<Rightarrow> pyval \<Rightarrow> exn + NewsSnapshot" where
  "NewsSnapshot_validate ext v =
     (case v of
        PDict kvs \<Rightarrow>
          (case do {
                  qid \<leftarrow> required_field (validate_int (int_of_str ext)) kvs ''question_id'';
                  fetched \<leftarrow> required_field (validate_datetime ext) kvs ''fetched_at'';
                  arts \<leftarrow> required_field (validate_list (NewsArticle_validate ext)) kvs
                            ''articles'';
                  query \<leftarrow> required_field validate_str kvs ''search_query'';
                  sid \<leftarrow> (case map_of kvs ''snapshot_id'' of
                             None \<Rightarrow> Some []
                           | Some x \<Rightarrow> validate_str x);
                  Some (NewsSnapshot_init qid fetched arts query sid)
                } of
             Some s \<Rightarrow> Inr s
           | None \<Rightarrow> Inl ValidationError)
      | _ \<Rightarrow> Inl ValidationError)"

section \<open>Merging a fetch with the history (news_aggregator.py)\<close>

text \<open>
  \<open>NewsAggregator.merge_with_previous\<close>. A model instance is always true, so
  \<open>not previous_snapshot\<close> holds exactly when it is \<open>None\<close>.
\<close>

definition merge_with_previous ::
  "NewsSnapshot \<Rightarrow> NewsSnapshot option \<Rightarrow> int \<Rightarrow> NewsSnapshot" where
  "merge_with_previous new_snapshot previous_snapshot max_articles =
     (case previous_snapshot of
        None \<Rightarrow> new_snapshot
      | Some previous \<Rightarrow>
          (let existing_urls = set (map url (articles previous));
               new_arts = filter (\<lambda>a. url a \<notin> existing_urls) (articles new_snapshot);
               combined = new_arts @ articles previous;
               combined = py_slice_to max_articles combined
           in NewsSnapshot_init (NewsSnapshot.question_id new_snapshot)
                (fetched_at new_snapshot) combined (search_query new_snapshot) []))"

text \<open>\<open>NewsAggregator.get_new_articles\<close>.\<close>

definition get_new_articles :: "NewsSnapshot \<Rightarrow> NewsSnapshot option \<Rightarrow> NewsArticle list" where
  "get_new_articles current_snapshot previous_snapshot =
     (case previous_snapshot of
        None \<Rightarrow> articles current_snapshot
      | Some previous \<Rightarrow>
          (let previous_urls = set (map url (articles previous))
           in filter (\<lambda>a. url a \<notin> previous_urls) (articles current_snapshot)))"

section \<open>The change classifier (change_detector.py)\<close>

subsection \<open>The two regular expressions\<close>

text \<open>\<open>\s\<close> in a pattern over \<open>str\<close>: the white space characters, here those below 256.\<close>

definition is_space :: "char \<Rightarrow> bool" where
  "is_space c =
     (let n = (of_char c :: nat)
      in (9 \<le> n \<and> n \<le> 13) \<or> (28 \<le> n \<and> n \<le> 32) \<or> n = 133 \<or> n = 160)"

text \<open>
  \<open>re.search(r"```(?:json)?\s*(\{.*?\})\s*```", text, re.DOTALL)\<close>, returning
  \<open>group(1)\<close>. \<open>fence_body\<close> is the lazy \<open>.*?\}\<close> with what must follow it: the group ends
  at the first closing brace after which only white space separates it from a fence.
  \<open>match_fence\<close> matches the pattern at the start of a text, \<open>search_fence\<close> tries every
  start from the left.
\<close>

fun fence_body :: "string \<Rightarrow> string \<Rightarrow> string option" where
  "fence_body acc [] = None"
| "fence_body acc (c # cs) =
     (if c = CHR ''}'' \<and> take 3 (dropWhile is_space cs) = ''```'' then Some (acc @ [c])
      else fence_body (acc @ [c]) cs)"

definition match_fence :: "string \<Rightarrow> string option" where
  "match_fence s =
     (if take 3 s = ''```'' then
        (let r = drop 3 s;
             r = (if take 4 r = ''json'' then drop 4 r else r);
             r = dropWhile is_space r
         in case r of
              [] \<Rightarrow> None
            | c # rest \<Rightarrow> (if c = CHR ''{'' then fence_body [c] rest else None))
      else None)"

fun search_fence :: "string \<Rightarrow> string option" where
  "search_fence [] = None"
| "search_fence (c # cs) =
     (case match_fence (c # cs) of Some g \<Rightarrow> Some g | None \<Rightarrow> search_fence cs)"

text \<open>
  \<open>re.search(r"\{[^{}]*\}", text, re.DOTALL)\<close>, returning \<open>group(0)\<close>: the first opening
  brace whose next brace is a closing one, with what lies between.
\<close>

definition not_brace :: "char \<Rightarrow> bool" where
  "not_brace c = (c \<noteq> CHR ''{'' \<and> c \<noteq> CHR ''}'')"

definition match_brace :: "string \<Rightarrow> string option" where
  "match_brace s =
     (case s of
        [] \<Rightarrow> None
      | c # rest \<Rightarrow>
          (if c = CHR ''{'' then
             (case dropWhile not_brace rest of
                [] \<Rightarrow> None
              | d # _ \<Rightarrow>
                  (if d = CHR ''}'' then Some (c # takeWhile not_brace rest @ [d]) else None))
           else None))"

fun search_brace :: "string \<Rightarrow> string option" where
  "search_brace [] = None"
| "search_brace (c # cs) =
     (case match_brace (c # cs) of Some g \<Rightarrow> Some g | None \<Rightarrow> search_brace cs)"

subsection \<open>Parsing the reply\<close>

text \<open>
  \<open>ChangeDetector._parse_json_response\<close>. The first \<open>json.loads\<close> stands in a \<open>try\<close>
  whose handler catches \<open>JSONDecodeError\<close> and nothing else: any other exception leaves
  the function at once. The two calls after a regular expression has matched stand in no
  \<open>try\<close>: they return what \<open>json.loads\<close> returns and raise what it raises.
\<close>

definition parse_json_response :: "(string \<Rightarrow> exn + pyval) \<Rightarrow> string \<Rightarrow> exn + pyval" where
  "parse_json_response loads text =
     (case loads text of
        Inr v \<Rightarrow> Inr v
      | Inl e \<Rightarrow>
          (if e = JSONDecodeError then
             (case search_fence text of
                Some g \<Rightarrow> loads g
              | None \<Rightarrow>
                  (case search_brace text of
                     Some g \<Rightarrow> loads g
                   | None \<Rightarrow> Inl ValueError))
           else Inl e))"

subsection \<open>The prompt\<close>

definition pub_date_text :: "NewsArticle \<Rightarrow> string" where
  "pub_date_text article =
     (case published_date article of
        Some d \<Rightarrow> strftime ''%Y-%m-%d'' d
      | None \<Rightarrow> ''Unknown'')"

text \<open>\<open>ChangeDetector._summarize_articles\<close>.\<close>

definition summarize_article :: "NewsArticle \<Rightarrow> string" where
  "summarize_article article =
     (let s = ''- ['' @ pub_date_text article @ ''] '' @ NewsArticle.title article
      in if summary article \<noteq> [] then s @ '': '' @ take 150 (summary article) @ ''...''
         else s)"

definition summarize_articles :: "NewsArticle list \<Rightarrow> string" where
  "summarize_articles arts =
     (if arts = [] then ''No previous articles.''
      else join ''\<newline>'' (map summarize_article (take 10 arts)))"

text \<open>\<open>ChangeDetector._format_articles\<close>.\<close>

definition format_article :: "nat \<times> NewsArticle \<Rightarrow> string" where
  "format_article ia =
     (let i = fst ia; article = snd ia;
          t = ''['' @ str_nat i @ ''] '' @ NewsArticle.title article @ ''\<newline>'';
          t = t @ ''    Source: '' @ source article @ '', Date: '' @ pub_date_text article
                @ ''\<newline>''
      in if summary article \<noteq> [] then
           t @ ''    Summary: '' @ take 300 (summary article) @ ''\<newline>''
         else (case full_text article of
                 Some ft \<Rightarrow>
                   (if ft \<noteq> [] then t @ ''    Content: '' @ take 300 ft @ ''...\<newline>''
                    else t)
               | None \<Rightarrow> t))"

definition format_articles :: "NewsArticle list \<Rightarrow> string" where
  "format_articles arts =
     (if arts = [] then ''No new articles.''
      else join ''\<newline>'' (map format_article (enumerate 1 arts)))"

text \<open>\<open>CHANGE_DETECTION_PROMPT.format(...)\<close>.\<close>

definition CHANGE_DETECTION_PROMPT ::
  "string \<Rightarrow> string \<Rightarrow> string \<Rightarrow> string \<Rightarrow> string \<Rightarrow> string" where
  \<open>CHANGE_DETECTION_PROMPT question_title criteria previous_date previous_summary new_arts =
     ''\<newline>You are analyzing news changes for a forecasting question.\<newline>\<newline>''
     @ ''Question: '' @ question_title @ ''\<newline>''
     @ ''Resolution Criteria: '' @ criteria @ ''\<newline>\<newline>''
     @ ''Previous news summary (from '' @ previous_date @ ''):\<newline>''
     @ previous_summary @ ''\<newline>\<newline>''
     @ ''New articles since then:\<newline>''
     @ new_arts @ ''\<newline>\<newline>''
     @ ''Analyze whether these new articles represent a SIGNIFICANT change that would:\<newline>''
     @ ''1. Materially affect the probability of the question's outcome\<newline>''
     @ ''2. Introduce new key information that wasn't previously available\<newline>''
     @ ''3. Change the status quo assumption\<newline>\<newline>''
     @ ''Respond with ONLY a JSON object in this exact format (no other text):\<newline>''
     @ ''{\<newline>''
     @ ''    "SIGNIFICANCE_SCORE": <number from 0.0 to 1.0>,\<newline>''
     @ ''    "IS_SIGNIFICANT": <true if score > 0.3, false otherwise>,\<newline>''
     @ ''    "CHANGE_SUMMARY": "<2-3 sentence summary of what changed and why it matters>"\<newline>''
     @ ''}\<newline>''\<close>

subsection \<open>The verdict\<close>

record ChangeDetector =
  model :: string
  significance_threshold :: pyfloat

text \<open>The dict that replaces the parsed reply when parsing has failed.\<close>

definition fallback_result :: "NewsArticle list \<Rightarrow> pyval" where
  "fallback_result new_arts =
     PDict [(''SIGNIFICANCE_SCORE'', PFloat (Finite (1/2))),
            (''IS_SIGNIFICANT'', PBool True),
            (''CHANGE_SUMMARY'',
               PStr (''New articles found but analysis failed: '' @ str_nat (length new_arts)
                     @ '' new article(s)''))]"

text \<open>
  The end of \<open>detect_changes\<close>, after the \<open>try\<close>: the score, the flag and the report. None
  of it stands in a \<open>try\<close>, so whatever is raised here leaves \<open>detect_changes\<close>.
\<close>

definition report_of_result ::
  "externals \<Rightarrow> ChangeDetector \<Rightarrow> QuestionMetadata \<Rightarrow> NewsSnapshot \<Rightarrow> NewsSnapshot
     \<Rightarrow> NewsArticle list \<Rightarrow> pyval \<Rightarrow> exn + ChangeReport" where
  "report_of_result ext self quest previous_snapshot current_snapshot new_arts result =
     (case py_get result ''SIGNIFICANCE_SCORE'' (PFloat (Finite 0)) of
        Inl e \<Rightarrow> Inl e
      | Inr raw_score \<Rightarrow>
     (case py_float (float_of_str ext) raw_score of
        Inl e \<Rightarrow> Inl e
      | Inr score \<Rightarrow>
     (case py_get result ''IS_SIGNIFICANT'' (PBool False) of
        Inl e \<Rightarrow> Inl e
      | Inr flag \<Rightarrow>
     (case py_get result ''CHANGE_SUMMARY'' (PStr ''No summary available.'') of
        Inl e \<Rightarrow> Inl e
      | Inr summ \<Rightarrow>
          ChangeReport_init (QuestionMetadata.question_id quest) (utc_now ext)
            (PStr (snapshot_id previous_snapshot)) (snapshot_id current_snapshot) summ score
            (py_or flag (PBool (pf_greater score (significance_threshold self))))
            new_arts))))"

text \<open>
  The prompt of \<open>detect_changes\<close>: at most ten previous articles summarised, at most ten
  new ones listed. (\<open>question.resolution_criteria or ""\<close> is the string itself.)
\<close>

definition build_prompt ::
  "QuestionMetadata \<Rightarrow> NewsSnapshot \<Rightarrow> NewsArticle list \<Rightarrow> string" where
  "build_prompt quest previous_snapshot new_arts =
     (let previous_summary = summarize_articles (take 10 (articles previous_snapshot));
          new_articles_text = format_articles (take 10 new_arts)
      in CHANGE_DETECTION_PROMPT (QuestionMetadata.title quest) (resolution_criteria quest)
           (strftime ''%Y-%m-%d %H:%M'' (fetched_at previous_snapshot))
           previous_summary new_articles_text)"

text \<open>\<open>response.choices[0].message.content or "{}"\<close>.\<close>

definition reply_text :: "string option \<Rightarrow> string" where
  "reply_text content =
     (case content of
        None \<Rightarrow> ''{}''
      | Some t \<Rightarrow> (if t = [] then ''{}'' else t))"

text \<open>
  \<open>ChangeDetector.detect_changes\<close>. The second component of the result lists the prompts
  that were sent to the text-generation service. The handler around the parsing is
  \<open>except (json.JSONDecodeError, ValueError)\<close>; an exception of another class leaves
  \<open>detect_changes\<close>.
\<close>

definition detect_changes ::
  "externals \<Rightarrow> ChangeDetector \<Rightarrow> QuestionMetadata \<Rightarrow> NewsSnapshot \<Rightarrow> NewsSnapshot
     \<Rightarrow> (exn + ChangeReport) \<times> string list" where
  "detect_changes ext self quest previous_snapshot current_snapshot =
     (let previous_urls = set (map url (articles previous_snapshot));
          new_arts = filter (\<lambda>a. url a \<notin> previous_urls) (articles current_snapshot)
      in if new_arts = [] then
           (ChangeReport_init (QuestionMetadata.question_id quest) (utc_now ext)
              (PStr (snapshot_id previous_snapshot)) (snapshot_id current_snapshot)
              (PStr ''No new articles found since last check.'') (Finite 0) (PBool False) [],
            [])
         else
           (let prompt = build_prompt quest previous_snapshot new_arts
            in case chat_completions_create ext (model self) prompt of
                 Inl e \<Rightarrow> (Inl e, [prompt])
               | Inr content \<Rightarrow>
                   (case parse_json_response (json_loads ext) (reply_text content) of
                      Inr result \<Rightarrow>
                        (report_of_result ext self quest previous_snapshot current_snapshot
                           new_arts result,
                         [prompt])
                    | Inl e \<Rightarrow>
                        (if is_ValueError e then
                           (report_of_result ext self quest previous_snapshot
                              current_snapshot new_arts (fallback_result new_arts),
                            [prompt])
                         else (Inl e, [prompt])))))"

section \<open>Storage (storage.py)\<close>

text \<open>
  The store keeps JSON files below its data directory. A path is the list of its
  components, and the file system maps a path to the JSON document that the file holds:
  writing a file stores the document that \<open>model_dump_json\<close> writes, reading it with
  \<open>json.load\<close> gives that document back.
\<close>

type_synonym path = "string list"

type_synonym files = "path \<Rightarrow> pyval option"

record Storage =
  data_dir :: string

text \<open>\<open>str(n)\<close> for an integer.\<close>

definition str_int :: "int \<Rightarrow> string" where
  "str_int i = (if i < 0 then ''-'' @ str_nat (nat (- i)) else str_nat (nat i))"

definition questions_dir :: "Storage \<Rightarrow> path" where
  "questions_dir storage = [data_dir storage, ''questions'']"

definition news_dir :: "Storage \<Rightarrow> path" where
  "news_dir storage = [data_dir storage, ''news'']"

definition get_timestamp_filename :: "datetime \<Rightarrow> string" where
  "get_timestamp_filename dt = strftime ''%Y-%m-%dT%H-%M-%S'' dt @ ''.json''"

text \<open>
  \<open>Storage._save_model\<close> and \<open>Storage._load_model\<close>. The class of the model is given by
  its \<open>dump\<close>, respectively by its \<open>validate\<close>.
\<close>

definition save_model :: "('m \<Rightarrow> pyval) \<Rightarrow> files \<Rightarrow> path \<Rightarrow> 'm \<Rightarrow> files" where
  "save_model dump fs p m = fs(p \<mapsto> dump m)"

definition load_model :: "(pyval \<Rightarrow> exn + 'm) \<Rightarrow> files \<Rightarrow> path \<Rightarrow> exn + 'm option" where
  "load_model validate fs p =
     (case fs p of
        None \<Rightarrow> Inr None
      | Some data \<Rightarrow> (case validate data of Inl e \<Rightarrow> Inl e | Inr m \<Rightarrow> Inr (Some m)))"

definition save_question :: "externals \<Rightarrow> Storage \<Rightarrow> files \<Rightarrow> QuestionMetadata \<Rightarrow> files" where
  "save_question ext storage fs quest =
     save_model (QuestionMetadata_dump ext) fs
       (questions_dir storage @ [str_int (QuestionMetadata.question_id quest) @ ''.json''])
       quest"

definition save_news :: "externals \<Rightarrow> Storage \<Rightarrow> files \<Rightarrow> int \<Rightarrow> NewsSnapshot \<Rightarrow> files" where
  "save_news ext storage fs qid snapshot =
     (let question_news_dir = news_dir storage @ [str_int qid];
          timestamp_file = question_news_dir @ [get_timestamp_filename (fetched_at snapshot)];
          fs = save_model (NewsSnapshot_dump ext) fs timestamp_file snapshot;
          latest_file = question_news_dir @ [''latest.json'']
      in save_model (NewsSnapshot_dump ext) fs latest_file snapshot)"

definition load_latest_news ::
  "externals \<Rightarrow> Storage \<Rightarrow> files \<Rightarrow> int \<Rightarrow> exn + NewsSnapshot option" where
  "load_latest_news ext storage fs qid =
     load_model (NewsSnapshot_validate ext) fs
       (news_dir storage @ [str_int qid, ''latest.json''])"

section \<open>The orchestrator (run.py)\<close>

text \<open>\<open>dt - timedelta(hours=1)\<close>; it raises \<open>OverflowError\<close> below year 1.\<close>

definition is_leap :: "nat \<Rightarrow> bool" where
  "is_leap y = (y mod 4 = 0 \<and> (y mod 100 \<noteq> 0 \<or> y mod 400 = 0))"

definition days_in_month :: "nat \<Rightarrow> nat \<Rightarrow> nat" where
  "days_in_month y m =
     (if m = 2 then (if is_leap y then 29 else 28)
      else if m = 4 \<or> m = 6 \<or> m = 9 \<or> m = 11 then 30
      else 31)"

definition minus_one_hour :: "datetime \<Rightarrow> exn + datetime" where
  "minus_one_hour dt =
     (if 1 \<le> hour dt then Inr (dt\<lparr>hour := hour dt - 1\<rparr>)
      else if 1 < day dt then Inr (dt\<lparr>day := day dt - 1, hour := 23\<rparr>)
      else if 1 < month dt then
        Inr (dt\<lparr>month := month dt - 1, day := days_in_month (year dt) (month dt - 1),
                hour := 23\<rparr>)
      else if 1 < year dt then
        Inr (dt\<lparr>year := year dt - 1, month := 12, day := 31, hour := 23\<rparr>)
      else Inl OverflowError)"

text \<open>
  The report that \<open>process_question\<close> builds on a first run: the call
  \<open>ChangeReport(..., previous_snapshot_id=None, ...)\<close> of its \<open>else\<close> branch.
\<close>

definition first_run_report ::
  "externals \<Rightarrow> QuestionMetadata \<Rightarrow> NewsSnapshot \<Rightarrow> exn + ChangeReport" where
  "first_run_report ext quest merged_news =
     ChangeReport_init (QuestionMetadata.question_id quest) (utc_now ext) PNone
       (snapshot_id merged_news)
       (PStr (''First news aggregation: found '' @ str_nat (length (articles merged_news))
              @ '' relevant article(s).''))
       (Finite 1) (PBool True) (articles merged_news)"

text \<open>
  What follows the change detection in \<open>process_question\<close>: both saves and the returned
  update.
\<close>

definition save_and_return ::
  "externals \<Rightarrow> Storage \<Rightarrow> files \<Rightarrow> QuestionMetadata \<Rightarrow> NewsSnapshot \<Rightarrow> ChangeReport option
     \<Rightarrow> NewsUpdate option \<times> files" where
  "save_and_return ext storage fs quest merged_news report =
     (let fs = save_news ext storage fs (QuestionMetadata.question_id quest) merged_news;
          fs = save_question ext storage fs quest
      in (Some \<lparr>question = quest, news_snapshot = merged_news, change_report = report\<rparr>,
          fs))"

text \<open>
  \<open>process_question\<close>. The whole body stands in \<open>try ... except Exception\<close>, whose handler
  returns \<open>None\<close>: every \<open>Inl\<close> below ends in \<open>None\<close> with the files as they were. The
  result is the returned update, the files afterwards, and the prompts sent to the
  text-generation service.
\<close>

definition process_question ::
  "externals \<Rightarrow> ChangeDetector \<Rightarrow> QuestionMetadata \<Rightarrow> Storage \<Rightarrow> files
     \<Rightarrow> NewsUpdate option \<times> files \<times> string list" where
  "process_question ext change_detector quest storage fs =
     (case load_latest_news ext storage fs (QuestionMetadata.question_id quest) of
        Inl e \<Rightarrow> (None, fs, [])
      | Inr previous_news \<Rightarrow>
     (case (case previous_news of
              None \<Rightarrow> Inr None
            | Some previous \<Rightarrow>
                (case minus_one_hour (fetched_at previous) of
                   Inl e \<Rightarrow> Inl e
                 | Inr d \<Rightarrow> Inr (Some d))) of
        Inl e \<Rightarrow> (None, fs, [])
      | Inr since_date \<Rightarrow>
     (case fetch_news_for_question ext quest since_date of
        Inl e \<Rightarrow> (None, fs, [])
      | Inr new_news \<Rightarrow>
     (let merged_news = merge_with_previous new_news previous_news 50
      in case previous_news of
           Some previous \<Rightarrow>
             (case detect_changes ext change_detector quest previous merged_news of
                (Inl e, prompts) \<Rightarrow> (None, fs, prompts)
              | (Inr report, prompts) \<Rightarrow>
                  (let (update, fs') =
                         save_and_return ext storage fs quest merged_news (Some report)
                   in (update, fs', prompts)))
         | None \<Rightarrow>
             (if articles merged_news \<noteq> [] then
                (case first_run_report ext quest merged_news of
                   Inl e \<Rightarrow> (None, fs, [])
                 | Inr report \<Rightarrow>
                     (let (update, fs') =
                            save_and_return ext storage fs quest merged_news (Some report)
                      in (update, fs', [])))
              else
                (let (update, fs') = save_and_return ext storage fs quest merged_news None
                 in (update, fs', [])))))))"

section \<open>Concrete inputs\<close>

text \<open>
  The inputs at which the theorems below are instantiated: a time, articles that differ
  in their URL only, snapshots built by the constructor, a question, a classifier with
  the threshold \<open>0.3\<close> of its own default.
\<close>

definition example_time :: datetime where
  "example_time =
     \<lparr>year = 2025, month = 3, day = 14, hour = 9, minute = 30, second = 0, microsecond = 0\<rparr>"

definition example_article :: "string \<Rightarrow> NewsArticle" where
  "example_article u =
     \<lparr>url = u, title = ''Headline'', summary = ''Lead paragraph'', full_text = None,
      published_date = None, source = ''example.org'', relevance_score = None\<rparr>"

definition example_snapshot :: "string list \<Rightarrow> NewsSnapshot" where
  "example_snapshot urls =
     NewsSnapshot_init 7 example_time (map example_article urls) ''Will it rain?'' []"

definition example_question :: QuestionMetadata where
  "example_question =
     \<lparr>QuestionMetadata.question_id = 7, post_id = 70, title = ''Will it rain?'',
      question_type = Binary, resolution_criteria = ''Rain is reported.'',
      fine_print = None, background_info = ''None given.'', scheduled_close_time = None,
      page_url = ''https://example.org/q/7'', series_id = None,
      last_fetched = example_time, unit_of_measure = None, upper_bound = None,
      lower_bound = None, open_upper_bound = None, open_lower_bound = None,
      zero_point = None, options = None\<rparr>"

definition example_detector :: ChangeDetector where
  "example_detector = \<lparr>model = ''gpt-5-mini'', significance_threshold = Finite (3/10)\<rparr>"

text \<open>
  Replies of the text-generation service, and the outcome of \<open>json.loads\<close> on each text
  that the examples hand to it: the five objects below parse; on a thousand opening
  brackets the parser exceeds the recursion limit of the interpreter and raises
  \<open>RecursionError\<close>; every other text that occurs in the examples (a sentence, an object
  with a bare word in it, a reply with text around an object) is not JSON.
\<close>

definition reply_plain :: string where
  "reply_plain = ''The new articles look important to me.''"

definition reply_low :: string where
  \<open>reply_low = ''{"SIGNIFICANCE_SCORE": 0.1}''\<close>

definition reply_complete :: string where
  \<open>reply_complete =
     ''{"SIGNIFICANCE_SCORE": 0.2, "IS_SIGNIFICANT": true, "CHANGE_SUMMARY": "Rain came."}''\<close>

definition reply_string_flag :: string where
  \<open>reply_string_flag =
     ''{"SIGNIFICANCE_SCORE": 0.9, "IS_SIGNIFICANT": "false", "CHANGE_SUMMARY": "Rain came."}''\<close>

definition reply_out_of_range :: string where
  \<open>reply_out_of_range = ''{"SIGNIFICANCE_SCORE": 7}''\<close>

definition reply_word_score :: string where
  \<open>reply_word_score = ''{"SIGNIFICANCE_SCORE": "high"}''\<close>

definition reply_broken_fence :: string where
  \<open>reply_broken_fence = ''{"SIGNIFICANCE_SCORE": 0.1} ```json {broken} ```''\<close>

definition reply_deep :: string where
  "reply_deep = replicate 1000 (CHR ''['')"

definition example_loads :: "string \<Rightarrow> exn + pyval" where
  "example_loads t =
     (if t = reply_deep then Inl RecursionError
      else if t = reply_low then
        Inr (PDict [(''SIGNIFICANCE_SCORE'', PFloat (Finite (1/10)))])
      else if t = reply_complete then
        Inr (PDict [(''SIGNIFICANCE_SCORE'', PFloat (Finite (1/5))),
                    (''IS_SIGNIFICANT'', PBool True),
                    (''CHANGE_SUMMARY'', PStr ''Rain came.'')])
      else if t = reply_string_flag then
        Inr (PDict [(''SIGNIFICANCE_SCORE'', PFloat (Finite (9/10))),
                    (''IS_SIGNIFICANT'', PStr ''false''),
                    (''CHANGE_SUMMARY'', PStr ''Rain came.'')])
      else if t = reply_out_of_range then Inr (PDict [(''SIGNIFICANCE_SCORE'', PInt 7)])
      else if t = reply_word_score then
        Inr (PDict [(''SIGNIFICANCE_SCORE'', PStr ''high'')])
      else Inl JSONDecodeError)"

text \<open>\<open>float\<close> on a string: of the strings in the examples, \<open>"high"\<close> is not a number.\<close>

definition example_float_of_str :: "string \<Rightarrow> pyfloat option" where
  "example_float_of_str t = (if t = ''0.7'' then Some (Finite (7/10)) else None)"

text \<open>
  The date codec on the one date of the examples: a UTC time is written in ISO 8601 with
  the suffix \<open>Z\<close>, and read back from that string.
\<close>

definition example_dump_datetime :: "datetime \<Rightarrow> pyval" where
  "example_dump_datetime d = PStr (strftime ''%Y-%m-%dT%H:%M:%SZ'' d)"

definition example_validate_datetime :: "pyval \<Rightarrow> datetime option" where
  "example_validate_datetime v =
     (if v = PStr ''2025-03-14T09:30:00Z'' then Some example_time else None)"

definition example_int_of_str :: "string \<Rightarrow> int option" where
  "example_int_of_str t = (if t = ''7'' then Some 7 else None)"

text \<open>
  The collaborators of a run in which the service answers \<open>reply\<close> and the retrieval
  returns the articles with the given URLs.
\<close>

definition example_externals :: "string \<Rightarrow> string list \<Rightarrow> externals" where
  "example_externals reply urls =
     \<lparr>json_loads = example_loads, float_of_str = example_float_of_str,
      int_of_str = example_int_of_str,
      dump_datetime = example_dump_datetime,
      validate_datetime = example_validate_datetime,
      chat_completions_create = (\<lambda>m p. Inr (Some reply)),
      fetch_news_for_question = (\<lambda>q since. Inr (example_snapshot urls)),
      utc_now = example_time\<rparr>"

definition example_storage :: Storage where
  "example_storage = \<lparr>data_dir = ''data''\<rparr>"

definition no_files :: files where
  "no_files = Map.empty"

section \<open>Properties of the merge\<close>

lemma py_slice_to_take: "\<exists>k. py_slice_to n xs = take k xs"
  by (auto simp: py_slice_to_def)

lemma NewsSnapshot_init_fields [simp]:
  "NewsSnapshot.question_id (NewsSnapshot_init q f a s i) = q"
  "fetched_at (NewsSnapshot_init q f a s i) = f"
  "articles (NewsSnapshot_init q f a s i) = a"
  "search_query (NewsSnapshot_init q f a s i) = s"
  by (simp_all add: NewsSnapshot_init_def)

lemma example_snapshot_urls [simp]: "map url (articles (example_snapshot urls)) = urls"
  by (simp add: example_snapshot_def example_article_def comp_def)

text \<open>
  \<^bold>\<open>C2.\<close> Without a previous snapshot the merge returns the new snapshot itself. With one,
  the result carries the question id, fetch time and search query of the new snapshot,
  and its articles are the new snapshot's articles whose URL the previous snapshot does
  not have, in their order, followed by all previous articles, in their order, cut to the
  first \<open>max_articles\<close> entries. (A count of entries is not negative; the slice
  \<open>combined[:max_articles]\<close> with a negative bound drops entries from the end instead.)
\<close>

theorem merge_with_previous_contract:
  "merge_with_previous new_snapshot None max_articles = new_snapshot \<and>
   NewsSnapshot.question_id (merge_with_previous new_snapshot (Some previous) max_articles)
     = NewsSnapshot.question_id new_snapshot \<and>
   fetched_at (merge_with_previous new_snapshot (Some previous) max_articles)
     = fetched_at new_snapshot \<and>
   search_query (merge_with_previous new_snapshot (Some previous) max_articles)
     = search_query new_snapshot \<and>
   (0 \<le> max_articles \<longrightarrow>
      articles (merge_with_previous new_snapshot (Some previous) max_articles)
        = take (nat max_articles)
            (filter (\<lambda>a. url a \<notin> set (map url (articles previous))) (articles new_snapshot)
             @ articles previous))"
  by (simp add: merge_with_previous_def Let_def py_slice_to_def)

text \<open>
  The scenario of the specification: the previous snapshot has the URLs A and B, the
  fetch returns B and C; the merge has C, A, B, in this order.
\<close>

theorem merge_with_previous_contract_witness:
  "(0::int) \<le> 50 \<and>
   map url (articles (merge_with_previous (example_snapshot [''B'', ''C''])
                        (Some (example_snapshot [''A'', ''B''])) 50))
     = [''C'', ''A'', ''B''] \<and>
   length (articles (merge_with_previous (example_snapshot [''B'', ''C''])
                        (Some (example_snapshot [''A'', ''B''])) 50)) = 3"
  using merge_with_previous_contract
          [of "example_snapshot [''B'', ''C'']" 50 "example_snapshot [''A'', ''B'']"]
  by (simp add: example_snapshot_def example_article_def)

text \<open>
  \<^bold>\<open>C6\<close> fails on the code. The merge removes from the fetched articles those whose
  URL the previous snapshot has, and nothing else, although it is documented to return a
  snapshot "with deduplicated articles". A fetch that returns the URL A twice, merged with
  a previous snapshot that has B, gives the three articles A, A, B: three articles with
  two URLs.
\<close>

theorem merge_keeps_batch_duplicates:
  "map url (articles (merge_with_previous (example_snapshot [''A'', ''A''])
                        (Some (example_snapshot [''B''])) 50)) = [''A'', ''A'', ''B'']
   \<and> card (set (map url (articles (merge_with_previous (example_snapshot [''A'', ''A''])
                                       (Some (example_snapshot [''B''])) 50))))
       \<noteq> length (articles (merge_with_previous (example_snapshot [''A'', ''A''])
                                       (Some (example_snapshot [''B''])) 50))"
  by (simp add: merge_with_previous_def Let_def py_slice_to_def example_snapshot_def
        example_article_def)

text \<open>
  The articles of the previous snapshot are kept as they are, so a URL that occurs twice
  among them occurs twice in the merge.
\<close>

lemma merge_keeps_previous_duplicates:
  "map url (articles (merge_with_previous (example_snapshot [])
                        (Some (example_snapshot [''A'', ''A''])) 50)) = [''A'', ''A'']"
  by (simp add: merge_with_previous_def Let_def py_slice_to_def example_snapshot_def
        example_article_def)

lemma merged_urls_distinct:
  assumes "distinct (map url new_arts)" and "distinct (map url old_arts)"
  shows "distinct (map url (py_slice_to n
           (filter (\<lambda>a. url a \<notin> set (map url old_arts)) new_arts @ old_arts)))"
proof -
  let ?fresh = "filter (\<lambda>a. url a \<notin> set (map url old_arts)) new_arts"
  have "distinct (map url ?fresh)"
    using assms(1) by (rule distinct_map_filter)
  moreover have "set (map url ?fresh) \<inter> set (map url old_arts) = {}"
    by auto
  ultimately have "distinct (map url (?fresh @ old_arts))"
    using assms(2) by simp
  then have "distinct (take k (map url (?fresh @ old_arts)))" for k
    by (rule distinct_take)
  then have "distinct (map url (take k (?fresh @ old_arts)))" for k
    by (simp only: take_map)
  moreover obtain k where "py_slice_to n (?fresh @ old_arts) = take k (?fresh @ old_arts)"
    using py_slice_to_take by blast
  ultimately show ?thesis
    by (simp only:)
qed

text \<open>
  What the merge does achieve: when the URLs of the fetched snapshot are pairwise distinct,
  and so are those of the previous snapshot if there is one, then for every bound the
  merged snapshot has as many URLs as articles.
\<close>

lemma merge_no_duplicate_urls:
  assumes "distinct (map url (articles new_snapshot))"
    and "\<forall>previous. previous_snapshot = Some previous
           \<longrightarrow> distinct (map url (articles previous))"
  shows "card (set (map url (articles
            (merge_with_previous new_snapshot previous_snapshot max_articles))))
         = length (articles (merge_with_previous new_snapshot previous_snapshot max_articles))"
proof -
  have "distinct (map url (articles
          (merge_with_previous new_snapshot previous_snapshot max_articles)))"
  proof (cases previous_snapshot)
    case None
    then show ?thesis using assms(1) by (simp add: merge_with_previous_def)
  next
    case (Some previous)
    then show ?thesis
      using assms merged_urls_distinct [of "articles new_snapshot" "articles previous"]
      by (simp add: merge_with_previous_def Let_def)
  qed
  then show ?thesis
    using distinct_card by fastforce
qed

lemma merge_no_duplicate_urls_example:
  "distinct (map url (articles (example_snapshot [''B'', ''C'']))) \<and>
   distinct (map url (articles (example_snapshot [''A'', ''B'']))) \<and>
   card (set (map url (articles (merge_with_previous (example_snapshot [''B'', ''C''])
                                   (Some (example_snapshot [''A'', ''B''])) 2))))
     = length (articles (merge_with_previous (example_snapshot [''B'', ''C''])
                           (Some (example_snapshot [''A'', ''B''])) 2))"
proof -
  have 1: "distinct (map url (articles (example_snapshot [''B'', ''C''])))"
    by simp
  have 2: "distinct (map url (articles (example_snapshot [''A'', ''B''])))"
    by simp
  from 2 have 3: "\<forall>previous. Some (example_snapshot [''A'', ''B'']) = Some previous
                    \<longrightarrow> distinct (map url (articles previous))"
    by blast
  show ?thesis
    using 1 2 merge_no_duplicate_urls [OF 1 3, of 2] by blast
qed

section \<open>Properties of the classifier\<close>

lemma no_new_articles_iff:
  "filter (\<lambda>a. url a \<notin> set (map url old_arts)) cur_arts = []
     \<longleftrightarrow> set (map url cur_arts) \<subseteq> set (map url old_arts)"
  by (auto simp: filter_empty_conv)

lemma validate_score_unit [simp]:
  "validate_score (Finite 0) = Some (Finite 0)"
  "validate_score (Finite (1/2)) = Some (Finite (1/2))"
  "validate_score (Finite 1) = Some (Finite 1)"
  by (simp_all add: validate_score_def pf_ge_def)

text \<open>
  \<^bold>\<open>C7.\<close> When every URL of the current snapshot occurs in the previous one, the
  classifier returns the report with score 0.0, not significant, no new articles and the
  summary that no new articles were found, and it has sent nothing to the text-generation
  service.
\<close>

theorem detect_changes_short_circuit:
  assumes "set (map url (articles current_snapshot))
             \<subseteq> set (map url (articles previous_snapshot))"
  shows "detect_changes ext self quest previous_snapshot current_snapshot =
           (Inr \<lparr>ChangeReport.question_id = QuestionMetadata.question_id quest,
                 detected_at = utc_now ext,
                 previous_snapshot_id = snapshot_id previous_snapshot,
                 current_snapshot_id = snapshot_id current_snapshot,
                 change_summary = ''No new articles found since last check.'',
                 significance_score = Finite 0,
                 is_significant = False,
                 new_articles = []\<rparr>,
            [])"
proof -
  have "filter (\<lambda>a. url a \<notin> set (map url (articles previous_snapshot)))
          (articles current_snapshot) = []"
    using assms by (simp only: no_new_articles_iff)
  then show ?thesis
    by (simp add: detect_changes_def Let_def ChangeReport_init_def validate_str_def
          validate_bool_def)
qed

theorem detect_changes_short_circuit_witness:
  "set (map url (articles (example_snapshot [''A'', ''B''])))
     \<subseteq> set (map url (articles (example_snapshot [''A'', ''B'', ''C''])))
   \<and> snd (detect_changes (example_externals reply_complete []) example_detector
            example_question (example_snapshot [''A'', ''B'', ''C''])
            (example_snapshot [''A'', ''B''])) = []
   \<and> (\<exists>r. fst (detect_changes (example_externals reply_complete []) example_detector
                 example_question (example_snapshot [''A'', ''B'', ''C''])
                 (example_snapshot [''A'', ''B''])) = Inr r
          \<and> significance_score r = Finite 0 \<and> \<not> is_significant r \<and> new_articles r = [])"
proof -
  have 1: "set (map url (articles (example_snapshot [''A'', ''B''])))
             \<subseteq> set (map url (articles (example_snapshot [''A'', ''B'', ''C''])))"
    by simp
  show ?thesis
    using 1 detect_changes_short_circuit [OF 1, of "example_externals reply_complete []"
              example_detector example_question]
    by simp
qed

lemma ChangeReport_init_new_articles:
  "ChangeReport_init qid t p c s f b arts = Inr r \<Longrightarrow> new_articles r = arts"
  by (auto simp: ChangeReport_init_def split: option.splits)

lemma ChangeReport_init_score:
  "ChangeReport_init qid t p c s f b arts = Inr r \<Longrightarrow>
     significance_score r = f \<and> pf_ge f (Finite 0) \<and> pf_le f (Finite 1)"
  by (auto simp: ChangeReport_init_def validate_score_def split: option.splits if_splits)

lemma report_of_result_new_articles:
  "report_of_result ext self quest prev cur arts result = Inr r \<Longrightarrow> new_articles r = arts"
  by (auto simp: report_of_result_def split: sum.splits dest: ChangeReport_init_new_articles)

lemma report_of_result_score:
  "report_of_result ext self quest prev cur arts result = Inr r \<Longrightarrow>
     pf_ge (significance_score r) (Finite 0) \<and> pf_le (significance_score r) (Finite 1)"
  by (auto simp: report_of_result_def split: sum.splits dest: ChangeReport_init_score)

lemma detect_changes_new_articles:
  assumes "fst (detect_changes ext self quest prev cur) = Inr r"
  shows "new_articles r = filter (\<lambda>a. url a \<notin> set (map url (articles prev))) (articles cur)"
  using assms
  by (auto simp: detect_changes_def Let_def split: if_splits sum.splits
        dest: ChangeReport_init_new_articles report_of_result_new_articles)

lemma detect_changes_score:
  assumes "fst (detect_changes ext self quest prev cur) = Inr r"
  shows "pf_ge (significance_score r) (Finite 0) \<and> pf_le (significance_score r) (Finite 1)"
  using assms
  by (auto simp: detect_changes_def Let_def split: if_splits sum.splits
        dest: ChangeReport_init_score report_of_result_score)

lemma report_of_fallback:
  "report_of_result ext self quest prev cur arts (fallback_result arts) =
     Inr \<lparr>ChangeReport.question_id = QuestionMetadata.question_id quest,
           detected_at = utc_now ext,
           previous_snapshot_id = snapshot_id prev,
           current_snapshot_id = snapshot_id cur,
           change_summary = ''New articles found but analysis failed: ''
                              @ str_nat (length arts) @ '' new article(s)'',
           significance_score = Finite (1/2),
           is_significant = True,
           new_articles = arts\<rparr>"
  by (simp add: report_of_result_def fallback_result_def py_get_def py_float_def py_or_def
        ChangeReport_init_def validate_str_def validate_bool_def)

lemma parse_json_response_all_fail:
  assumes "loads text = Inl JSONDecodeError"
    and "\<forall>g. search_fence text = Some g \<longrightarrow> loads g = Inl JSONDecodeError"
    and "\<forall>g. search_brace text = Some g \<longrightarrow> loads g = Inl JSONDecodeError"
  shows "parse_json_response loads text = Inl JSONDecodeError
         \<or> parse_json_response loads text = Inl ValueError"
  using assms by (auto simp: parse_json_response_def split: option.splits)

text \<open>
  The handler of \<open>detect_changes\<close> at work. Let the current snapshot have a new article and
  let the service answer. Whenever \<open>_parse_json_response\<close> raises an exception of the class
  \<open>ValueError\<close>, \<open>detect_changes\<close> returns the report with score 0.5, significant, the
  summary that the analysis failed with the number of new articles, and all new articles.
\<close>

lemma detect_changes_parse_failure_caught:
  assumes "\<not> set (map url (articles current_snapshot))
               \<subseteq> set (map url (articles previous_snapshot))"
    and "chat_completions_create ext (model self)
           (build_prompt quest previous_snapshot
              (get_new_articles current_snapshot (Some previous_snapshot))) = Inr content"
    and "parse_json_response (json_loads ext) (reply_text content) = Inl e"
    and "is_ValueError e"
  shows "fst (detect_changes ext self quest previous_snapshot current_snapshot) =
           Inr \<lparr>ChangeReport.question_id = QuestionMetadata.question_id quest,
                 detected_at = utc_now ext,
                 previous_snapshot_id = snapshot_id previous_snapshot,
                 current_snapshot_id = snapshot_id current_snapshot,
                 change_summary =
                   ''New articles found but analysis failed: ''
                   @ str_nat (length (get_new_articles current_snapshot
                                        (Some previous_snapshot)))
                   @ '' new article(s)'',
                 significance_score = Finite (1/2),
                 is_significant = True,
                 new_articles = get_new_articles current_snapshot (Some previous_snapshot)\<rparr>"
proof -
  let ?new = "get_new_articles current_snapshot (Some previous_snapshot)"
  have new: "?new \<noteq> []"
    using assms(1)
      no_new_articles_iff [of "articles previous_snapshot" "articles current_snapshot"]
    by (simp add: get_new_articles_def)
  have "fst (detect_changes ext self quest previous_snapshot current_snapshot) =
               report_of_result ext self quest previous_snapshot current_snapshot ?new
                 (fallback_result ?new)"
    using new assms(2-4) by (simp add: detect_changes_def get_new_articles_def Let_def)
  then show ?thesis
    by (simp only: report_of_fallback)
qed

text \<open>
  And an exception of another class, raised by \<open>json.loads\<close> on the whole reply, leaves
  first \<open>_parse_json_response\<close> and then \<open>detect_changes\<close>.
\<close>

lemma detect_changes_parse_failure_escapes:
  assumes "\<not> set (map url (articles current_snapshot))
               \<subseteq> set (map url (articles previous_snapshot))"
    and "chat_completions_create ext (model self)
           (build_prompt quest previous_snapshot
              (get_new_articles current_snapshot (Some previous_snapshot))) = Inr content"
    and "json_loads ext (reply_text content) = Inl e"
    and "\<not> is_ValueError e"
  shows "fst (detect_changes ext self quest previous_snapshot current_snapshot) = Inl e"
proof -
  have "get_new_articles current_snapshot (Some previous_snapshot) \<noteq> []"
    using assms(1)
      no_new_articles_iff [of "articles previous_snapshot" "articles current_snapshot"]
    by (simp add: get_new_articles_def)
  moreover have "parse_json_response (json_loads ext) (reply_text content) = Inl e"
    using assms(3,4) by (auto simp: parse_json_response_def is_ValueError_def)
  ultimately show ?thesis
    using assms(2,4) by (simp add: detect_changes_def get_new_articles_def Let_def)
qed

lemma reply_deep_neq: "hd t \<noteq> CHR ''['' \<Longrightarrow> (t = reply_deep) = False"
  by (auto simp: reply_deep_def)

lemma reply_deep_not_empty: "reply_deep \<noteq> []"
  by (simp add: reply_deep_def)

lemma search_fence_brackets: "search_fence (replicate n (CHR ''['')) = None"
  by (induction n) (simp_all add: match_fence_def)

lemma search_brace_brackets: "search_brace (replicate n (CHR ''['')) = None"
  by (induction n) (simp_all add: match_brace_def)

lemma search_fence_plain: "search_fence reply_plain = None"
  by (simp add: reply_plain_def match_fence_def)

lemma search_brace_plain: "search_brace reply_plain = None"
  by (simp add: reply_plain_def match_brace_def)

lemma example_loads_plain: "example_loads reply_plain = Inl JSONDecodeError"
  by (simp add: example_loads_def reply_plain_def reply_low_def reply_complete_def
        reply_string_flag_def reply_out_of_range_def reply_word_score_def reply_deep_neq)

lemma example_new_articles:
  "get_new_articles (example_snapshot [''C'', ''A'', ''B''])
     (Some (example_snapshot [''A'', ''B''])) = [example_article ''C'']"
  by (simp add: get_new_articles_def example_snapshot_def example_article_def
        NewsSnapshot_init_def)

lemma example_has_new_article:
  "\<not> set (map url (articles (example_snapshot [''C'', ''A'', ''B''])))
       \<subseteq> set (map url (articles (example_snapshot [''A'', ''B''])))"
  by simp

text \<open>
  The example of the specification: the reply is a plain sentence, which is not JSON and
  has neither a fenced block nor a brace; one article, C, is new. The fallback is returned.
\<close>

lemma detect_changes_plain_reply:
  "example_loads reply_plain = Inl JSONDecodeError \<and> search_fence reply_plain = None
   \<and> search_brace reply_plain = None
   \<and> (\<exists>r. fst (detect_changes (example_externals reply_plain []) example_detector
                 example_question (example_snapshot [''A'', ''B''])
                 (example_snapshot [''C'', ''A'', ''B''])) = Inr r
          \<and> significance_score r = Finite (1/2) \<and> is_significant r
          \<and> change_summary r = ''New articles found but analysis failed: 1 new article(s)''
          \<and> new_articles r = [example_article ''C''])"
proof -
  let ?ext = "example_externals reply_plain []"
  have 2: "chat_completions_create ?ext (model example_detector)
             (build_prompt example_question (example_snapshot [''A'', ''B''])
                (get_new_articles (example_snapshot [''C'', ''A'', ''B''])
                   (Some (example_snapshot [''A'', ''B''])))) = Inr (Some reply_plain)"
    by (simp add: example_externals_def)
  have t: "reply_text (Some reply_plain) = reply_plain"
    by (simp add: reply_text_def reply_plain_def)
  have 3: "parse_json_response (json_loads ?ext) (reply_text (Some reply_plain))
             = Inl ValueError"
    by (simp add: t example_externals_def parse_json_response_def example_loads_plain
          search_fence_plain search_brace_plain)
  have 4: "is_ValueError ValueError"
    by (simp add: is_ValueError_def)
  show ?thesis
    using detect_changes_parse_failure_caught [OF example_has_new_article 2 3 4]
    by (simp add: example_new_articles digit_char_def example_loads_plain search_fence_plain
          search_brace_plain)
qed

text \<open>
  \<^bold>\<open>C4\<close> fails on the code when \<open>json.loads\<close> fails with an exception that is no
  \<open>ValueError\<close>. The reply of a thousand opening brackets cannot be parsed by any of the
  three attempts: \<open>json.loads\<close> raises \<open>RecursionError\<close> on it, and it has neither a
  fenced block nor a brace-delimited object. The handler in \<open>_parse_json_response\<close>
  catches \<open>JSONDecodeError\<close> only and the handler in \<open>detect_changes\<close> catches
  \<open>ValueError\<close> only, so no fallback verdict is built: with one new article, C,
  \<open>detect_changes\<close> raises \<open>RecursionError\<close>.
\<close>

theorem detect_changes_deep_reply:
  "example_loads reply_deep = Inl RecursionError
   \<and> search_fence reply_deep = None \<and> search_brace reply_deep = None
   \<and> parse_json_response example_loads reply_deep = Inl RecursionError
   \<and> fst (detect_changes (example_externals reply_deep []) example_detector
            example_question (example_snapshot [''A'', ''B''])
            (example_snapshot [''C'', ''A'', ''B''])) = Inl RecursionError"
proof -
  let ?ext = "example_externals reply_deep []"
  have l: "example_loads reply_deep = Inl RecursionError"
    by (simp add: example_loads_def)
  then have p: "parse_json_response example_loads reply_deep = Inl RecursionError"
    by (simp add: parse_json_response_def)
  have c: "chat_completions_create ?ext (model example_detector)
             (build_prompt example_question (example_snapshot [''A'', ''B''])
                (get_new_articles (example_snapshot [''C'', ''A'', ''B''])
                   (Some (example_snapshot [''A'', ''B''])))) = Inr (Some reply_deep)"
    by (simp add: example_externals_def)
  have t: "reply_text (Some reply_deep) = reply_deep"
    by (simp add: reply_text_def reply_deep_not_empty)
  have j: "json_loads ?ext (reply_text (Some reply_deep)) = Inl RecursionError"
    by (simp add: t l example_externals_def)
  have n: "\<not> is_ValueError RecursionError"
    by (simp add: is_ValueError_def)
  have s: "search_fence reply_deep = None \<and> search_brace reply_deep = None"
    by (simp add: reply_deep_def search_fence_brackets search_brace_brackets)
  show ?thesis
    using l p s detect_changes_parse_failure_escapes [OF example_has_new_article c j n]
    by simp
qed

text \<open>
  \<^bold>\<open>C8.\<close> \<open>get_new_articles\<close> returns the articles of the current snapshot when there
  is no previous one, and otherwise those whose URL the previous snapshot does not have, in
  the order of the current snapshot; and whenever \<open>detect_changes\<close> returns a report, the
  \<open>new_articles\<close> of that report are this list.
\<close>

theorem get_new_articles_agrees:
  "get_new_articles current_snapshot None = articles current_snapshot \<and>
   get_new_articles current_snapshot (Some previous_snapshot)
     = filter (\<lambda>a. url a \<notin> set (map url (articles previous_snapshot)))
         (articles current_snapshot) \<and>
   (fst (detect_changes ext self quest previous_snapshot current_snapshot) = Inr report
      \<longrightarrow> new_articles report = get_new_articles current_snapshot (Some previous_snapshot))"
  using detect_changes_new_articles [of ext self quest previous_snapshot current_snapshot report]
  by (simp add: get_new_articles_def)

lemma py_get_Inr_dict:
  "py_get result k dflt = Inr v \<Longrightarrow> \<exists>kvs. result = PDict kvs"
  by (cases result) (simp_all add: py_get_def)

lemma py_get_dict: "\<exists>v. py_get (PDict kvs) k dflt = Inr v"
  by (simp add: py_get_def)

lemma ChangeReport_init_out_of_range:
  "\<not> (pf_ge f (Finite 0) \<and> pf_le f (Finite 1)) \<Longrightarrow>
     ChangeReport_init qid t p c s f b arts = Inl ValidationError"
  by (simp add: ChangeReport_init_def validate_score_def split: option.splits)

lemma report_of_result_cases:
  assumes "py_get result ''SIGNIFICANCE_SCORE'' (PFloat (Finite 0)) = Inr raw_score"
  shows "(py_float (float_of_str ext) raw_score = Inl e \<longrightarrow>
            report_of_result ext self quest prev cur arts result = Inl e)
       \<and> (py_float (float_of_str ext) raw_score = Inr f
            \<and> \<not> (pf_ge f (Finite 0) \<and> pf_le f (Finite 1)) \<longrightarrow>
            report_of_result ext self quest prev cur arts result = Inl ValidationError)
       \<and> (report_of_result ext self quest prev cur arts result = Inr r \<longrightarrow>
            py_float (float_of_str ext) raw_score = Inr (significance_score r))"
proof -
  obtain kvs where k: "result = PDict kvs"
    using assms py_get_Inr_dict by blast
  obtain flag where f: "py_get result ''IS_SIGNIFICANT'' (PBool False) = Inr flag"
    using k py_get_dict by blast
  obtain summ where s: "py_get result ''CHANGE_SUMMARY'' (PStr ''No summary available.'') = Inr summ"
    using k py_get_dict by blast
  show ?thesis
  proof (cases "py_float (float_of_str ext) raw_score")
    case (Inl e')
    then show ?thesis by (simp add: report_of_result_def assms)
  next
    case (Inr f')
    then have "report_of_result ext self quest prev cur arts result =
       ChangeReport_init (QuestionMetadata.question_id quest) (utc_now ext)
            (PStr (snapshot_id prev)) (snapshot_id cur) summ f'
            (py_or flag (PBool (pf_greater f' (significance_threshold self)))) arts"
      by (simp add: report_of_result_def assms f s)
    then show ?thesis
      using Inr ChangeReport_init_out_of_range ChangeReport_init_score
      by (metis Inl_Inr_False sum.inject(2))
  qed
qed


lemma detect_changes_parsed:
  assumes "\<not> set (map url (articles current_snapshot))
               \<subseteq> set (map url (articles previous_snapshot))"
    and "chat_completions_create ext (model self)
           (build_prompt quest previous_snapshot
              (get_new_articles current_snapshot (Some previous_snapshot))) = Inr content"
    and "parse_json_response (json_loads ext) (reply_text content) = Inr result"
  shows "fst (detect_changes ext self quest previous_snapshot current_snapshot) =
           report_of_result ext self quest previous_snapshot current_snapshot
             (get_new_articles current_snapshot (Some previous_snapshot)) result"
proof -
  have "get_new_articles current_snapshot (Some previous_snapshot) \<noteq> []"
    using assms(1)
      no_new_articles_iff [of "articles previous_snapshot" "articles current_snapshot"]
    by (simp add: get_new_articles_def)
  then show ?thesis
    using assms(2,3) by (simp add: detect_changes_def get_new_articles_def Let_def)
qed


text \<open>
  \<^bold>\<open>C10.\<close> A report that \<open>detect_changes\<close> returns has its score between 0.0 and 1.0.
  When a new article exists, the service answers and the reply parses to a dict, whose
  value under \<open>SIGNIFICANCE_SCORE\<close> (or the default) is \<open>raw_score\<close>: if \<open>float\<close> raises
  on \<open>raw_score\<close>, that exception leaves \<open>detect_changes\<close>; if \<open>float\<close> gives a value
  outside the range, \<open>ValidationError\<close> leaves it; and a report that is returned carries
  \<open>float(raw_score)\<close> as its score.
\<close>

theorem detect_changes_score_range:
  "(fst (detect_changes ext self quest previous_snapshot current_snapshot) = Inr report
      \<longrightarrow> pf_ge (significance_score report) (Finite 0)
          \<and> pf_le (significance_score report) (Finite 1))
   \<and> (\<not> set (map url (articles current_snapshot))
            \<subseteq> set (map url (articles previous_snapshot))
       \<and> chat_completions_create ext (model self)
           (build_prompt quest previous_snapshot
              (get_new_articles current_snapshot (Some previous_snapshot))) = Inr content
       \<and> parse_json_response (json_loads ext) (reply_text content) = Inr result
       \<and> py_get result ''SIGNIFICANCE_SCORE'' (PFloat (Finite 0)) = Inr raw_score
      \<longrightarrow> (py_float (float_of_str ext) raw_score = Inl e \<longrightarrow>
             fst (detect_changes ext self quest previous_snapshot current_snapshot) = Inl e)
        \<and> (py_float (float_of_str ext) raw_score = Inr f
             \<and> \<not> (pf_ge f (Finite 0) \<and> pf_le f (Finite 1)) \<longrightarrow>
             fst (detect_changes ext self quest previous_snapshot current_snapshot)
               = Inl ValidationError)
        \<and> (fst (detect_changes ext self quest previous_snapshot current_snapshot) = Inr report
             \<longrightarrow> py_float (float_of_str ext) raw_score = Inr (significance_score report)))"
  (is "?range \<and> (?new \<and> ?chat \<and> ?parsed \<and> ?score \<longrightarrow> ?raised)")
proof (rule conjI)
  show ?range
    using detect_changes_score by blast
next
  show "?new \<and> ?chat \<and> ?parsed \<and> ?score \<longrightarrow> ?raised"
  proof (rule impI, elim conjE)
    assume new: ?new and chat: ?chat and parsed: ?parsed and score: ?score
    have d: "fst (detect_changes ext self quest previous_snapshot current_snapshot) =
               report_of_result ext self quest previous_snapshot current_snapshot
                 (get_new_articles current_snapshot (Some previous_snapshot)) result"
      using new chat parsed by (rule detect_changes_parsed)
    show ?raised
      unfolding d using score by (rule report_of_result_cases)
  qed
qed

lemma example_snapshot_id: "snapshot_id (example_snapshot urls) = ''2025-03-14T09-30-00''"
  by (simp add: example_snapshot_def NewsSnapshot_init_def example_time_def
        strftime_directive_def zero_padded_def digit_char_def)

lemma reply_text_examples:
  "reply_text (Some reply_complete) = reply_complete"
  "reply_text (Some reply_string_flag) = reply_string_flag"
  "reply_text (Some reply_out_of_range) = reply_out_of_range"
  "reply_text (Some reply_word_score) = reply_word_score"
  "reply_text (Some reply_broken_fence) = reply_broken_fence"
  by (simp_all add: reply_text_def reply_complete_def reply_string_flag_def
        reply_out_of_range_def reply_word_score_def reply_broken_fence_def)

lemma example_loads_values:
  "example_loads reply_low = Inr (PDict [(''SIGNIFICANCE_SCORE'', PFloat (Finite (1/10)))])"
  "example_loads reply_complete =
     Inr (PDict [(''SIGNIFICANCE_SCORE'', PFloat (Finite (1/5))),
                  (''IS_SIGNIFICANT'', PBool True),
                  (''CHANGE_SUMMARY'', PStr ''Rain came.'')])"
  "example_loads reply_string_flag =
     Inr (PDict [(''SIGNIFICANCE_SCORE'', PFloat (Finite (9/10))),
                  (''IS_SIGNIFICANT'', PStr ''false''),
                  (''CHANGE_SUMMARY'', PStr ''Rain came.'')])"
  "example_loads reply_out_of_range = Inr (PDict [(''SIGNIFICANCE_SCORE'', PInt 7)])"
  "example_loads reply_word_score = Inr (PDict [(''SIGNIFICANCE_SCORE'', PStr ''high'')])"
  "example_loads reply_broken_fence = Inl JSONDecodeError"
  "example_loads ''{broken}'' = Inl JSONDecodeError"
  by (simp_all add: example_loads_def reply_low_def reply_complete_def reply_string_flag_def
        reply_out_of_range_def reply_word_score_def reply_broken_fence_def reply_deep_neq)

lemma example_chat:
  "chat_completions_create (example_externals reply urls) m p = Inr (Some reply)"
  "json_loads (example_externals reply urls) = example_loads"
  "float_of_str (example_externals reply urls) = example_float_of_str"
  "utc_now (example_externals reply urls) = example_time"
  by (simp_all add: example_externals_def)

lemma detect_changes_example:
  assumes "parse_json_response example_loads (reply_text (Some reply)) = Inr result"
  shows "fst (detect_changes (example_externals reply []) example_detector example_question
                (example_snapshot [''A'', ''B'']) (example_snapshot [''C'', ''A'', ''B''])) =
         report_of_result (example_externals reply []) example_detector example_question
           (example_snapshot [''A'', ''B'']) (example_snapshot [''C'', ''A'', ''B''])
           [example_article ''C''] result"
  using detect_changes_parsed [OF example_has_new_article, of "example_externals reply []"
          example_detector example_question "Some reply" result] assms
  by (simp add: example_chat example_new_articles)

lemma detect_changes_example_complete:
  "fst (detect_changes (example_externals reply_complete []) example_detector
         example_question (example_snapshot [''A'', ''B''])
         (example_snapshot [''C'', ''A'', ''B''])) =
   Inr \<lparr>ChangeReport.question_id = 7, detected_at = example_time,
         previous_snapshot_id = ''2025-03-14T09-30-00'',
         current_snapshot_id = ''2025-03-14T09-30-00'',
         change_summary = ''Rain came.'',
         significance_score = Finite (1/5),
         is_significant = True,
         new_articles = [example_article ''C'']\<rparr>"
proof -
  have "parse_json_response example_loads (reply_text (Some reply_complete)) =
          Inr (PDict [(''SIGNIFICANCE_SCORE'', PFloat (Finite (1/5))),
                      (''IS_SIGNIFICANT'', PBool True),
                      (''CHANGE_SUMMARY'', PStr ''Rain came.'')])"
    by (simp add: parse_json_response_def reply_text_examples example_loads_values)
  then have "fst (detect_changes (example_externals reply_complete []) example_detector
         example_question (example_snapshot [''A'', ''B''])
         (example_snapshot [''C'', ''A'', ''B''])) =
       report_of_result (example_externals reply_complete []) example_detector
         example_question (example_snapshot [''A'', ''B''])
         (example_snapshot [''C'', ''A'', ''B'']) [example_article ''C'']
         (PDict [(''SIGNIFICANCE_SCORE'', PFloat (Finite (1/5))),
                 (''IS_SIGNIFICANT'', PBool True),
                 (''CHANGE_SUMMARY'', PStr ''Rain came.'')])"
    by (rule detect_changes_example)
  then show ?thesis
    by (simp add: example_chat example_snapshot_id report_of_result_def py_get_def
          py_float_def py_or_def ChangeReport_init_def validate_str_def validate_bool_def
          validate_score_def pf_ge_def example_question_def)
qed

text \<open>The service answers with a complete object; one article, C, is new.\<close>

theorem get_new_articles_agrees_witness:
  "\<exists>r. fst (detect_changes (example_externals reply_complete []) example_detector
            example_question (example_snapshot [''A'', ''B''])
            (example_snapshot [''C'', ''A'', ''B''])) = Inr r
       \<and> new_articles r = get_new_articles (example_snapshot [''C'', ''A'', ''B''])
                             (Some (example_snapshot [''A'', ''B'']))
       \<and> new_articles r = [example_article ''C'']"
  using get_new_articles_agrees
          [of "example_snapshot [''C'', ''A'', ''B'']" "example_snapshot [''A'', ''B'']"
              "example_externals reply_complete []" example_detector example_question]
        detect_changes_example_complete
  by (simp add: example_new_articles)

text \<open>
  A complete reply with the score 0.2; a reply with the score 7; a reply with the score
  \<open>"high"\<close>.
\<close>

theorem detect_changes_score_range_witness:
  "(\<exists>r. fst (detect_changes (example_externals reply_complete []) example_detector
               example_question (example_snapshot [''A'', ''B''])
               (example_snapshot [''C'', ''A'', ''B''])) = Inr r
        \<and> pf_ge (significance_score r) (Finite 0) \<and> pf_le (significance_score r) (Finite 1))
   \<and> fst (detect_changes (example_externals reply_out_of_range []) example_detector
            example_question (example_snapshot [''A'', ''B''])
            (example_snapshot [''C'', ''A'', ''B''])) = Inl ValidationError
   \<and> fst (detect_changes (example_externals reply_word_score []) example_detector
            example_question (example_snapshot [''A'', ''B''])
            (example_snapshot [''C'', ''A'', ''B''])) = Inl ValueError"
proof (intro conjI)
  let ?prev = "example_snapshot [''A'', ''B'']"
  let ?cur = "example_snapshot [''C'', ''A'', ''B'']"
  show "\<exists>r. fst (detect_changes (example_externals reply_complete []) example_detector
               example_question ?prev ?cur) = Inr r
        \<and> pf_ge (significance_score r) (Finite 0) \<and> pf_le (significance_score r) (Finite 1)"
    using detect_changes_example_complete
      detect_changes_score_range [of "example_externals reply_complete []" example_detector
        example_question ?prev ?cur]
    by (simp add: pf_ge_def)
next
  let ?prev = "example_snapshot [''A'', ''B'']"
  let ?cur = "example_snapshot [''C'', ''A'', ''B'']"
  let ?ext = "example_externals reply_out_of_range []"
  let ?result = "PDict [(''SIGNIFICANCE_SCORE'', PInt 7)]"
  have "parse_json_response (json_loads ?ext) (reply_text (Some reply_out_of_range))
          = Inr ?result"
    by (simp add: parse_json_response_def example_chat reply_text_examples
          example_loads_values)
  moreover have "py_get ?result ''SIGNIFICANCE_SCORE'' (PFloat (Finite 0)) = Inr (PInt 7)"
    by (simp add: py_get_def)
  moreover have "py_float (float_of_str ?ext) (PInt 7) = Inr (Finite 7)
                 \<and> \<not> (pf_ge (Finite 7) (Finite 0) \<and> pf_le (Finite 7) (Finite 1))"
    by (simp add: py_float_def pf_ge_def)
  ultimately show "fst (detect_changes ?ext example_detector example_question ?prev ?cur)
                     = Inl ValidationError"
    using detect_changes_score_range [of ?ext example_detector example_question ?prev ?cur
            _ "Some reply_out_of_range" ?result "PInt 7" _ "Finite 7"]
      example_has_new_article
    by (simp add: example_chat)
next
  let ?prev = "example_snapshot [''A'', ''B'']"
  let ?cur = "example_snapshot [''C'', ''A'', ''B'']"
  let ?ext = "example_externals reply_word_score []"
  let ?result = "PDict [(''SIGNIFICANCE_SCORE'', PStr ''high'')]"
  have "parse_json_response (json_loads ?ext) (reply_text (Some reply_word_score))
          = Inr ?result"
    by (simp add: parse_json_response_def example_chat reply_text_examples
          example_loads_values)
  moreover have "py_get ?result ''SIGNIFICANCE_SCORE'' (PFloat (Finite 0))
                   = Inr (PStr ''high'')"
    by (simp add: py_get_def)
  moreover have "py_float (float_of_str ?ext) (PStr ''high'') = Inl ValueError"
    by (simp add: py_float_def example_chat example_float_of_str_def)
  ultimately show "fst (detect_changes ?ext example_detector example_question ?prev ?cur)
                     = Inl ValueError"
    using detect_changes_score_range [of ?ext example_detector example_question ?prev ?cur
            _ "Some reply_word_score" ?result "PStr ''high''" ValueError]
      example_has_new_article
    by (simp add: example_chat)
qed

text \<open>
  For a flag that is a \<open>bool\<close>, the flag of the report is the disjunction: this is what
  \<open>detect_changes\<close> computes from a reply that has \<open>true\<close> or \<open>false\<close> under
  \<open>IS_SIGNIFICANT\<close>, or lacks the key, and from the fallback.
\<close>

lemma report_of_result_bool_flag:
  assumes "py_get result ''IS_SIGNIFICANT'' (PBool False) = Inr (PBool flag)"
    and "report_of_result ext self quest prev cur arts result = Inr r"
  shows "is_significant r
           = (flag \<or> pf_greater (significance_score r) (significance_threshold self))"
proof -
  obtain kvs where k: "result = PDict kvs"
    using assms(1) py_get_Inr_dict by blast
  obtain raw where raw: "py_get result ''SIGNIFICANCE_SCORE'' (PFloat (Finite 0)) = Inr raw"
    using k py_get_dict by blast
  obtain summ where s:
      "py_get result ''CHANGE_SUMMARY'' (PStr ''No summary available.'') = Inr summ"
    using k py_get_dict by blast
  obtain f where f: "py_float (float_of_str ext) raw = Inr f"
    using assms(2) raw by (cases "py_float (float_of_str ext) raw")
      (simp_all add: report_of_result_def)
  have "ChangeReport_init (QuestionMetadata.question_id quest) (utc_now ext)
            (PStr (snapshot_id prev)) (snapshot_id cur) summ f
            (py_or (PBool flag) (PBool (pf_greater f (significance_threshold self)))) arts
          = Inr r"
    using assms raw s f by (simp add: report_of_result_def)
  then show ?thesis
    by (auto simp: ChangeReport_init_def py_or_def validate_bool_def validate_score_def
          split: option.splits if_splits)
qed

text \<open>
  \<^bold>\<open>C3\<close> fails on the code when the reply carries the flag as a string. The reply
  \<open>{"SIGNIFICANCE_SCORE": 0.9, "IS_SIGNIFICANT": "false", "CHANGE_SUMMARY": "Rain came."}\<close>
  parses; \<open>"false" or (0.9 > 0.3)\<close> is the non-empty string \<open>"false"\<close>, which the
  \<open>bool\<close> field of the report reads as \<open>False\<close>: the returned report has the score 0.9,
  above the threshold 0.3, and is not significant.
\<close>

theorem detect_changes_string_flag:
  "fst (detect_changes (example_externals reply_string_flag []) example_detector
         example_question (example_snapshot [''A'', ''B''])
         (example_snapshot [''C'', ''A'', ''B''])) =
     Inr \<lparr>ChangeReport.question_id = 7, detected_at = example_time,
           previous_snapshot_id = ''2025-03-14T09-30-00'',
           current_snapshot_id = ''2025-03-14T09-30-00'',
           change_summary = ''Rain came.'',
           significance_score = Finite (9/10),
           is_significant = False,
           new_articles = [example_article ''C'']\<rparr>
   \<and> pf_greater (Finite (9/10)) (significance_threshold example_detector)"
proof -
  have "parse_json_response example_loads (reply_text (Some reply_string_flag)) =
          Inr (PDict [(''SIGNIFICANCE_SCORE'', PFloat (Finite (9/10))),
                      (''IS_SIGNIFICANT'', PStr ''false''),
                      (''CHANGE_SUMMARY'', PStr ''Rain came.'')])"
    by (simp add: parse_json_response_def reply_text_examples example_loads_values)
  then have "fst (detect_changes (example_externals reply_string_flag []) example_detector
         example_question (example_snapshot [''A'', ''B''])
         (example_snapshot [''C'', ''A'', ''B''])) =
       report_of_result (example_externals reply_string_flag []) example_detector
         example_question (example_snapshot [''A'', ''B''])
         (example_snapshot [''C'', ''A'', ''B'']) [example_article ''C'']
         (PDict [(''SIGNIFICANCE_SCORE'', PFloat (Finite (9/10))),
                 (''IS_SIGNIFICANT'', PStr ''false''),
                 (''CHANGE_SUMMARY'', PStr ''Rain came.'')])"
    by (rule detect_changes_example)
  then show ?thesis
    by (simp add: example_chat example_snapshot_id report_of_result_def py_get_def
          py_float_def py_or_def ChangeReport_init_def validate_str_def validate_bool_def
          str_as_bool_def ascii_lower_def validate_score_def pf_ge_def pf_greater_def
          example_question_def example_detector_def)
qed

subsection \<open>The order of the parsing attempts\<close>

text \<open>
  What \<open>_parse_json_response\<close> does, attempt by attempt: the whole text if it parses, and
  the exception if \<open>json.loads\<close> raises another one than \<open>JSONDecodeError\<close>; else the
  content of the fenced block if there is one, parsed or not; else the first brace-delimited
  object if there is one, parsed or not; else \<open>ValueError\<close>.
\<close>

lemma parse_json_response_direct:
  "loads text = Inr v \<Longrightarrow> parse_json_response loads text = Inr v"
  by (simp add: parse_json_response_def)

lemma parse_json_response_other_exception:
  "loads text = Inl e \<Longrightarrow> e \<noteq> JSONDecodeError \<Longrightarrow> parse_json_response loads text = Inl e"
  by (simp add: parse_json_response_def)

lemma parse_json_response_fence:
  "loads text = Inl JSONDecodeError \<Longrightarrow> search_fence text = Some g \<Longrightarrow>
     parse_json_response loads text = loads g"
  by (simp add: parse_json_response_def)

lemma parse_json_response_brace:
  "loads text = Inl JSONDecodeError \<Longrightarrow> search_fence text = None \<Longrightarrow>
     search_brace text = Some g \<Longrightarrow>
     parse_json_response loads text = loads g"
  by (simp add: parse_json_response_def)

lemma parse_json_response_nothing:
  "loads text = Inl JSONDecodeError \<Longrightarrow> search_fence text = None \<Longrightarrow>
     search_brace text = None \<Longrightarrow>
     parse_json_response loads text = Inl ValueError"
  by (simp add: parse_json_response_def)

lemma search_fence_broken: "search_fence reply_broken_fence = Some ''{broken}''"
  by (simp add: reply_broken_fence_def match_fence_def is_space_def)

lemma search_brace_broken: "search_brace reply_broken_fence = Some reply_low"
  by (simp add: reply_broken_fence_def reply_low_def match_brace_def not_brace_def)

text \<open>
  \<^bold>\<open>C5\<close> fails on the code when the reply has a fenced block whose content is not JSON.
  The reply \<open>{"SIGNIFICANCE_SCORE": 0.1} ```json {broken} ```\<close> is not JSON as a whole, so
  the first attempt fails; its fenced block holds \<open>{broken}\<close>, which is not JSON, so the
  second attempt fails; its first brace-delimited object is \<open>{"SIGNIFICANCE_SCORE": 0.1}\<close>,
  which parses. \<open>_parse_json_response\<close> raises from the second attempt and never makes the
  third, and \<open>detect_changes\<close> returns the fallback verdict.
\<close>

theorem parse_json_response_broken_fence:
  "example_loads reply_broken_fence = Inl JSONDecodeError
   \<and> search_fence reply_broken_fence = Some ''{broken}''
   \<and> example_loads ''{broken}'' = Inl JSONDecodeError
   \<and> search_brace reply_broken_fence = Some reply_low
   \<and> example_loads reply_low
       = Inr (PDict [(''SIGNIFICANCE_SCORE'', PFloat (Finite (1/10)))])
   \<and> parse_json_response example_loads reply_broken_fence = Inl JSONDecodeError
   \<and> fst (detect_changes (example_externals reply_broken_fence []) example_detector
            example_question (example_snapshot [''A'', ''B''])
            (example_snapshot [''C'', ''A'', ''B''])) =
       Inr \<lparr>ChangeReport.question_id = 7, detected_at = example_time,
             previous_snapshot_id = ''2025-03-14T09-30-00'',
             current_snapshot_id = ''2025-03-14T09-30-00'',
             change_summary = ''New articles found but analysis failed: 1 new article(s)'',
             significance_score = Finite (1/2),
             is_significant = True,
             new_articles = [example_article ''C'']\<rparr>"
proof -
  have p: "parse_json_response example_loads reply_broken_fence = Inl JSONDecodeError"
    by (simp add: parse_json_response_fence [OF _ search_fence_broken] example_loads_values)
  have "fst (detect_changes (example_externals reply_broken_fence []) example_detector
            example_question (example_snapshot [''A'', ''B''])
            (example_snapshot [''C'', ''A'', ''B''])) =
        report_of_result (example_externals reply_broken_fence []) example_detector
            example_question (example_snapshot [''A'', ''B''])
            (example_snapshot [''C'', ''A'', ''B'']) [example_article ''C'']
            (fallback_result [example_article ''C''])"
    using example_new_articles p
    by (simp add: detect_changes_def Let_def get_new_articles_def example_chat
          reply_text_examples is_ValueError_def)
  then show ?thesis
    by (simp add: p search_fence_broken search_brace_broken example_loads_values
          report_of_fallback example_chat example_snapshot_id digit_char_def
          example_question_def)
qed

section \<open>Properties of the orchestrator\<close>

text \<open>
  The constructor rejects the report of a first run, whatever the snapshot: the field
  \<open>previous_snapshot_id\<close> is declared \<open>str\<close> and is given \<open>None\<close>.
\<close>

lemma first_run_report_rejected: "first_run_report ext quest merged_news = Inl ValidationError"
  by (simp add: first_run_report_def ChangeReport_init_def validate_str_def)

text \<open>
  A first run, in full: the classifier is not called; when no article was found, the
  update is returned without a report and the snapshot is stored; when an article was
  found, the rejected report ends the run in the handler, which returns \<open>None\<close>, and
  nothing is stored.
\<close>

lemma process_question_first_run:
  assumes "fs (news_dir storage @ [str_int (QuestionMetadata.question_id quest),
                                   ''latest.json'']) = None"
    and "fetch_news_for_question ext quest None = Inr new_news"
  shows "process_question ext change_detector quest storage fs =
           (if articles new_news \<noteq> [] then (None, fs, [])
            else (Some \<lparr>question = quest, news_snapshot = new_news, change_report = None\<rparr>,
                  save_question ext storage
                    (save_news ext storage fs (QuestionMetadata.question_id quest) new_news)
                    quest,
                  []))"
  using assms
  by (simp add: process_question_def load_latest_news_def load_model_def Let_def
        merge_with_previous_def first_run_report_rejected save_and_return_def)

text \<open>
  \<^bold>\<open>C1\<close> fails on the code. On a first run whose fetch returns the three articles A, B
  and C, \<open>process_question\<close> returns \<open>None\<close>: no update, no report with score 1.0, and no
  file is written, so the next run is a first run again.
\<close>

theorem process_question_first_run_three_articles:
  "load_latest_news (example_externals reply_complete [''A'', ''B'', ''C'']) example_storage
     no_files (QuestionMetadata.question_id example_question) = Inr None
   \<and> length (articles (example_snapshot [''A'', ''B'', ''C''])) = 3
   \<and> process_question (example_externals reply_complete [''A'', ''B'', ''C''])
        example_detector example_question example_storage no_files
       = (None, no_files, [])"
proof -
  have 1: "no_files (news_dir example_storage
             @ [str_int (QuestionMetadata.question_id example_question), ''latest.json''])
           = None"
    by (simp add: no_files_def)
  have 2: "fetch_news_for_question (example_externals reply_complete [''A'', ''B'', ''C''])
             example_question None = Inr (example_snapshot [''A'', ''B'', ''C''])"
    by (simp add: example_externals_def)
  have 3: "articles (example_snapshot [''A'', ''B'', ''C'']) =
             [example_article ''A'', example_article ''B'', example_article ''C'']"
    by (simp add: example_snapshot_def)
  show ?thesis
    using 1 3 process_question_first_run
                [where fs = no_files and storage = example_storage
                   and quest = example_question and change_detector = example_detector,
                 OF 1 2]
    by (simp add: load_latest_news_def load_model_def)
qed

section \<open>Properties of the storage\<close>

lemma snapshot_id_not_empty: "snapshot_id (NewsSnapshot_init qid fetched arts query sid) \<noteq> []"
  by (simp add: NewsSnapshot_init_def strftime_directive_def)

lemma NewsSnapshot_init_snapshot_id:
  "sid \<noteq> [] \<Longrightarrow> snapshot_id (NewsSnapshot_init qid fetched arts query sid) = sid"
  by (simp add: NewsSnapshot_init_def)

lemma optional_field_dump_str:
  "map_of kvs k = Some (dump_optional PStr x) \<Longrightarrow> optional_field validate_str kvs k = Some x"
  by (cases x) (simp_all add: optional_field_def dump_optional_def validate_str_def)

lemma optional_field_dump_float:
  assumes "map_of kvs k = Some (dump_optional dump_float x)"
  shows "\<exists>y. optional_field (validate_float of_str) kvs k = Some y"
proof (cases x)
  case None
  then show ?thesis using assms by (simp add: optional_field_def dump_optional_def)
next
  case (Some f)
  then show ?thesis
    using assms
    by (cases f)
      (simp_all add: optional_field_def dump_optional_def dump_float_def validate_float_def
         py_float_def)
qed

lemma optional_field_dump_datetime:
  assumes "map_of kvs k = Some (dump_optional (dump_datetime ext) x)"
    and "\<forall>d. x = Some d \<longrightarrow> validate_datetime ext (dump_datetime ext d) \<noteq> None"
  shows "\<exists>y. optional_field (validate_datetime ext) kvs k = Some y"
proof (cases x)
  case None
  then show ?thesis using assms(1) by (simp add: optional_field_def dump_optional_def)
next
  case (Some d)
  then obtain d' where "validate_datetime ext (dump_datetime ext d) = Some d'"
    using assms(2) by auto
  then show ?thesis
    using assms(1) Some by (simp add: optional_field_def dump_optional_def)
qed

text \<open>An article read back from its JSON form has its URL.\<close>

lemma NewsArticle_round_trip:
  assumes "\<forall>d. published_date a = Some d \<longrightarrow> validate_datetime ext (dump_datetime ext d) \<noteq> None"
  shows "\<exists>a'. NewsArticle_validate ext (NewsArticle_dump ext a) = Some a' \<and> url a' = url a"
proof -
  let ?kvs = "[(''url'', PStr (url a)),
            (''title'', PStr (NewsArticle.title a)),
            (''summary'', PStr (summary a)),
            (''full_text'', dump_optional PStr (full_text a)),
            (''published_date'', dump_optional (dump_datetime ext) (published_date a)),
            (''source'', PStr (source a)),
            (''relevance_score'', dump_optional dump_float (relevance_score a))]"
  have ft: "optional_field validate_str ?kvs ''full_text'' = Some (full_text a)"
    by (rule optional_field_dump_str) simp
  obtain pd where pd: "optional_field (validate_datetime ext) ?kvs ''published_date'' = Some pd"
    using optional_field_dump_datetime [of ?kvs "''published_date''" ext "published_date a"]
      assms by auto
  obtain rs where rs:
      "optional_field (validate_float (float_of_str ext)) ?kvs ''relevance_score'' = Some rs"
    using optional_field_dump_float [of ?kvs "''relevance_score''" "relevance_score a"]
    by auto
  have req: "required_field validate_str ?kvs ''url'' = Some (url a)"
    "required_field validate_str ?kvs ''title'' = Some (NewsArticle.title a)"
    "required_field validate_str ?kvs ''summary'' = Some (summary a)"
    "required_field validate_str ?kvs ''source'' = Some (source a)"
    by (simp_all add: required_field_def validate_str_def)
  show ?thesis
    unfolding NewsArticle_validate_def NewsArticle_dump_def
    by (simp only: pyval.case req ft pd rs Option.bind.simps) simp
qed

lemma articles_round_trip:
  assumes "\<forall>a \<in> set arts. \<forall>d. published_date a = Some d
             \<longrightarrow> validate_datetime ext (dump_datetime ext d) \<noteq> None"
  shows "\<exists>arts'. those (map (NewsArticle_validate ext) (map (NewsArticle_dump ext) arts))
                    = Some arts'
                \<and> map url arts' = map url arts"
  using assms
proof (induction arts)
  case Nil
  then show ?case by simp
next
  case (Cons a arts)
  obtain a' where a': "NewsArticle_validate ext (NewsArticle_dump ext a) = Some a'"
      "url a' = url a"
    using NewsArticle_round_trip [of a ext] Cons.prems by auto
  obtain arts' where arts':
      "those (map (NewsArticle_validate ext) (map (NewsArticle_dump ext) arts)) = Some arts'"
      "map url arts' = map url arts"
    using Cons by auto
  show ?case
    using a' arts' by simp
qed


text \<open>
  A snapshot built by the constructor and read back from its JSON form: the question id
  and the search query are the same, the fetch time and the articles are what the
  validation makes of their JSON forms, and the \<open>snapshot_id\<close>, which is not empty, is the
  one that was written.
\<close>

lemma NewsSnapshot_validate_dump:
  assumes "validate_datetime ext (dump_datetime ext fetched) \<noteq> None"
    and "\<forall>a \<in> set arts. \<forall>d. published_date a = Some d
           \<longrightarrow> validate_datetime ext (dump_datetime ext d) \<noteq> None"
  shows "\<exists>fetched' arts'.
           NewsSnapshot_validate ext
             (NewsSnapshot_dump ext (NewsSnapshot_init qid fetched arts query sid))
           = Inr (NewsSnapshot_init qid fetched' arts' query
                    (snapshot_id (NewsSnapshot_init qid fetched arts query sid)))
           \<and> map url arts' = map url arts"
proof -
  let ?s = "NewsSnapshot_init qid fetched arts query sid"
  let ?kvs = "[(''question_id'', PInt (NewsSnapshot.question_id ?s)),
            (''fetched_at'', dump_datetime ext (fetched_at ?s)),
            (''articles'', PList (map (NewsArticle_dump ext) (articles ?s))),
            (''search_query'', PStr (search_query ?s)),
            (''snapshot_id'', PStr (snapshot_id ?s))]"
  obtain fetched' where f: "validate_datetime ext (dump_datetime ext fetched) = Some fetched'"
    using assms(1) by auto
  obtain arts' where a:
      "those (map (NewsArticle_validate ext) (map (NewsArticle_dump ext) arts)) = Some arts'"
      "map url arts' = map url arts"
    using articles_round_trip [OF assms(2)] by auto
  have q: "required_field (validate_int (int_of_str ext)) ?kvs ''question_id'' = Some qid"
    by (simp add: required_field_def validate_int_def)
  have f': "required_field (validate_datetime ext) ?kvs ''fetched_at'' = Some fetched'"
    using f by (simp add: required_field_def)
  have a': "required_field (validate_list (NewsArticle_validate ext)) ?kvs ''articles''
              = Some arts'"
    using a(1) by (simp add: required_field_def validate_list_def)
  have s: "required_field validate_str ?kvs ''search_query'' = Some query"
    by (simp add: required_field_def validate_str_def)
  have i: "(case map_of ?kvs ''snapshot_id'' of None \<Rightarrow> Some [] | Some x \<Rightarrow> validate_str x)
             = Some (snapshot_id ?s)"
    by (simp add: validate_str_def)
  have "NewsSnapshot_validate ext (NewsSnapshot_dump ext ?s) =
          Inr (NewsSnapshot_init qid fetched' arts' query (snapshot_id ?s))"
    unfolding NewsSnapshot_validate_def NewsSnapshot_dump_def
    by (simp only: pyval.case q f' a' s i Option.bind.simps option.case)
  then show ?thesis
    using a(2) by blast
qed

lemma load_after_save:
  assumes "NewsSnapshot_validate ext (NewsSnapshot_dump ext s) = Inr s'"
  shows "load_model (NewsSnapshot_validate ext) (save_model (NewsSnapshot_dump ext) fs p s) p
           = Inr (Some s')"
  using assms by (simp add: load_model_def save_model_def)

text \<open>
  \<^bold>\<open>C9.\<close> Take any snapshot built by the constructor, write it with \<open>_save_model\<close> and
  read the file back with \<open>_load_model\<close>. If the date codec accepts what it has written
  for the dates of the snapshot, the read succeeds, and the snapshot read has the same
  \<open>snapshot_id\<close> and the same article URLs in the same order.
\<close>

theorem snapshot_round_trip:
  assumes "validate_datetime ext (dump_datetime ext fetched) \<noteq> None"
    and "\<forall>a \<in> set arts. \<forall>d. published_date a = Some d
           \<longrightarrow> validate_datetime ext (dump_datetime ext d) \<noteq> None"
  shows "\<exists>s'. load_model (NewsSnapshot_validate ext)
                (save_model (NewsSnapshot_dump ext) fs p
                   (NewsSnapshot_init qid fetched arts query sid)) p = Inr (Some s')
              \<and> snapshot_id s' = snapshot_id (NewsSnapshot_init qid fetched arts query sid)
              \<and> map url (articles s') = map url arts"
proof -
  let ?s = "NewsSnapshot_init qid fetched arts query sid"
  obtain fetched' arts' where v:
      "NewsSnapshot_validate ext (NewsSnapshot_dump ext ?s)
         = Inr (NewsSnapshot_init qid fetched' arts' query (snapshot_id ?s))"
      "map url arts' = map url arts"
    using NewsSnapshot_validate_dump [OF assms] by blast
  have "load_model (NewsSnapshot_validate ext) (save_model (NewsSnapshot_dump ext) fs p ?s) p
          = Inr (Some (NewsSnapshot_init qid fetched' arts' query (snapshot_id ?s)))"
    using v(1) by (rule load_after_save)
  moreover have "snapshot_id (NewsSnapshot_init qid fetched' arts' query (snapshot_id ?s))
                   = snapshot_id ?s"
    using snapshot_id_not_empty by (rule NewsSnapshot_init_snapshot_id)
  moreover have "map url (articles (NewsSnapshot_init qid fetched' arts' query
                   (snapshot_id ?s))) = map url arts"
    using v(2) by simp
  ultimately show ?thesis
    by blast
qed

text \<open>
  A snapshot with a dated article B and an undated article A, written to the file of the
  latest snapshot of question 7 and read back.
\<close>

theorem snapshot_round_trip_witness:
  "validate_datetime (example_externals reply_complete [])
     (dump_datetime (example_externals reply_complete []) example_time) = Some example_time
   \<and> (\<exists>s'. load_model (NewsSnapshot_validate (example_externals reply_complete []))
              (save_model (NewsSnapshot_dump (example_externals reply_complete [])) no_files
                 [''data'', ''news'', ''7'', ''latest.json'']
                 (NewsSnapshot_init 7 example_time
                    [(example_article ''B'')\<lparr>published_date := Some example_time\<rparr>,
                     example_article ''A''] ''Will it rain?'' []))
              [''data'', ''news'', ''7'', ''latest.json''] = Inr (Some s')
          \<and> snapshot_id s' = ''2025-03-14T09-30-00''
          \<and> map url (articles s') = [''B'', ''A''])"
proof -
  let ?ext = "example_externals reply_complete []"
  have 1: "validate_datetime ?ext (dump_datetime ?ext example_time) = Some example_time"
    by (simp add: example_externals_def example_dump_datetime_def
          example_validate_datetime_def example_time_def strftime_directive_def
          zero_padded_def digit_char_def)
  then have 2: "validate_datetime ?ext (dump_datetime ?ext example_time) \<noteq> None"
    by simp
  have 3: "\<forall>a \<in> set [(example_article ''B'')\<lparr>published_date := Some example_time\<rparr>,
                        example_article ''A''].
             \<forall>d. published_date a = Some d
               \<longrightarrow> validate_datetime ?ext (dump_datetime ?ext d) \<noteq> None"
    using 2 by (simp add: example_article_def)
  have 4: "snapshot_id (NewsSnapshot_init 7 example_time
                    [(example_article ''B'')\<lparr>published_date := Some example_time\<rparr>,
                     example_article ''A''] ''Will it rain?'' []) = ''2025-03-14T09-30-00''"
    by (simp add: NewsSnapshot_init_def example_time_def strftime_directive_def
          zero_padded_def digit_char_def)
  have 5: "map url [(example_article ''B'')\<lparr>published_date := Some example_time\<rparr>,
                    example_article ''A''] = [''B'', ''A'']"
    by (simp add: example_article_def)
  show ?thesis
    using 1 snapshot_round_trip [OF 2 3, of no_files "[''data'', ''news'', ''7'', ''latest.json'']"
                7 "''Will it rain?''" "[]"]
    by (simp only: 4 5)
qed

text \<open>The same through the store: the latest snapshot of a question is the one saved last.\<close>

lemma load_latest_news_after_save_news:
  assumes "validate_datetime ext (dump_datetime ext fetched) \<noteq> None"
    and "\<forall>a \<in> set arts. \<forall>d. published_date a = Some d
           \<longrightarrow> validate_datetime ext (dump_datetime ext d) \<noteq> None"
  shows "\<exists>s'. load_latest_news ext storage
                (save_news ext storage fs qid
                   (NewsSnapshot_init q fetched arts query sid)) qid = Inr (Some s')
              \<and> snapshot_id s' = snapshot_id (NewsSnapshot_init q fetched arts query sid)
              \<and> map url (articles s') = map url arts"
proof -
  let ?s = "NewsSnapshot_init q fetched arts query sid"
  obtain fetched' arts' where v:
      "NewsSnapshot_validate ext (NewsSnapshot_dump ext ?s)
         = Inr (NewsSnapshot_init q fetched' arts' query (snapshot_id ?s))"
      "map url arts' = map url arts"
    using NewsSnapshot_validate_dump [OF assms] by blast
  have "load_latest_news ext storage (save_news ext storage fs qid ?s) qid
          = Inr (Some (NewsSnapshot_init q fetched' arts' query (snapshot_id ?s)))"
    using v(1) by (simp add: load_latest_news_def save_news_def Let_def load_after_save)
  moreover have "snapshot_id (NewsSnapshot_init q fetched' arts' query (snapshot_id ?s))
                   = snapshot_id ?s"
    using snapshot_id_not_empty by (rule NewsSnapshot_init_snapshot_id)
  moreover have "map url (articles (NewsSnapshot_init q fetched' arts' query
                   (snapshot_id ?s))) = map url arts"
    using v(2) by simp
  ultimately show ?thesis
    by blast
qed

end
